theory Spec2Isabelle
  imports Complex_Main "HOL-Library.Multiset" "HOL-Library.Char_ord" "HOL-Library.List_Lexorder"
begin

section \<open>Python values shared by the services\<close>

text \<open>
  Exceptions of the Python code are values: a function that may raise returns
  \<open>py_error + 'a\<close>, with \<open>Inl\<close> for the exception.
\<close>

datatype py_error = ZeroDivisionError | TypeError | AttributeError | ValueError
  | JSONDecodeError | Exception string

text \<open>
  A Python \<open>str\<close> is a \<open>string\<close>, one \<open>char\<close> for one character. The model is of ASCII
  text: the classes of characters (white space, digits, letters, case) are the ASCII ones, and
  any other character is copied unchanged and belongs to no class.
\<close>

definition is_space :: "char \<Rightarrow> bool" where
  "is_space c \<longleftrightarrow> c \<in> set [CHR '' '', CHR 0x09, CHR 0x0A, CHR 0x0B, CHR 0x0C, CHR 0x0D,
                             CHR 0x1C, CHR 0x1D, CHR 0x1E, CHR 0x1F]"

definition is_digit :: "char \<Rightarrow> bool" where
  "is_digit c \<longleftrightarrow> CHR ''0'' \<le> c \<and> c \<le> CHR ''9''"

definition is_upper :: "char \<Rightarrow> bool" where
  "is_upper c \<longleftrightarrow> CHR ''A'' \<le> c \<and> c \<le> CHR ''Z''"

definition is_lower :: "char \<Rightarrow> bool" where
  "is_lower c \<longleftrightarrow> CHR ''a'' \<le> c \<and> c \<le> CHR ''z''"

definition to_lower :: "char \<Rightarrow> char" where
  "to_lower c = (if is_upper c then char_of (of_char c + (32::nat)) else c)"

definition to_upper :: "char \<Rightarrow> char" where
  "to_upper c = (if is_lower c then char_of (of_char c - (32::nat)) else c)"

text \<open>\<open>s.lower()\<close>, \<open>s.strip()\<close>, \<open>s.split(sep)\<close> for a one-character \<open>sep\<close>,
  \<open>s.split()\<close>, \<open>sep.join(xs)\<close>, \<open>s.startswith(p)\<close>, \<open>p in s\<close> and \<open>s.title()\<close>.\<close>

definition py_lower :: "string \<Rightarrow> string" where
  "py_lower s = map to_lower s"

definition strip :: "string \<Rightarrow> string" where
  "strip s = rev (dropWhile is_space (rev (dropWhile is_space s)))"

fun split_on :: "char \<Rightarrow> string \<Rightarrow> string list" where
  "split_on sep [] = [[]]"
| "split_on sep (c # cs) =
     (if c = sep then [] # split_on sep cs
      else (case split_on sep cs of [] \<Rightarrow> [[c]] | w # ws \<Rightarrow> (c # w) # ws))"

fun split_ws :: "string \<Rightarrow> string list" where
  "split_ws [] = []"
| "split_ws (c # cs) =
     (if is_space c then split_ws cs
      else (case cs of
              [] \<Rightarrow> [[c]]
            | d # ds \<Rightarrow> if is_space d then [c] # split_ws cs
                       else (case split_ws cs of [] \<Rightarrow> [[c]] | w # ws \<Rightarrow> (c # w) # ws)))"

fun join :: "string \<Rightarrow> string list \<Rightarrow> string" where
  "join sep [] = []"
| "join sep [x] = x"
| "join sep (x # y # ys) = x @ sep @ join sep (y # ys)"

definition startswith :: "string \<Rightarrow> string \<Rightarrow> bool" where
  "startswith s p \<longleftrightarrow> take (length p) s = p"

definition endswith :: "string \<Rightarrow> string \<Rightarrow> bool" where
  "endswith s p \<longleftrightarrow> length p \<le> length s \<and> drop (length s - length p) s = p"

fun contains :: "string \<Rightarrow> string \<Rightarrow> bool" where
  "contains p [] = (p = [])"
| "contains p (c # cs) = (startswith (c # cs) p \<or> contains p cs)"

fun title_from :: "bool \<Rightarrow> string \<Rightarrow> string" where
  "title_from prev [] = []"
| "title_from prev (c # cs) =
     (if is_upper c \<or> is_lower c
      then (if prev then to_lower c else to_upper c) # title_from True cs
      else c # title_from False cs)"

definition py_title :: "string \<Rightarrow> string" where
  "py_title s = title_from False s"

text \<open>
  A value decoded by \<open>json.loads\<close>. The decoder itself is the library's and is a parameter
  of the functions that call it.
\<close>

datatype json = JNull | JBool bool | JNum rat | JStr string | JArr "json list"
  | JObj "(string \<times> json) list"

text \<open>\<open>str(n)\<close> for a Python int.\<close>

definition digit_char :: "nat \<Rightarrow> char" where
  "digit_char d = ''0123456789'' ! d"

fun str_nat :: "nat \<Rightarrow> string" where
  "str_nat n = (if n < 10 then [digit_char n] else str_nat (n div 10) @ [digit_char (n mod 10)])"

declare str_nat.simps [simp del]

definition str_int :: "int \<Rightarrow> string" where
  "str_int i = (if i < 0 then CHR ''-'' # str_nat (nat (- i)) else str_nat (nat i))"

section \<open>recipe\_store.py: RecipeStore.scale\_ingredients\<close>

text \<open>
  The protobuf messages \<open>Ingredient\<close> and \<open>Recipe\<close>. A quantity is a Python float; the
  model takes the rational number the float denotes, so a product or quotient is the exact
  one. Where every intermediate result is representable (as in \<open>1.5 * (8 / 4)\<close>, and in
  \<open>q * (d / d)\<close>) the float computation gives the same value.
\<close>

record ingredient =
  name :: string
  quantity :: rat
  unit :: string

record recipe =
  recipe_id :: string
  title :: string
  description :: string
  default_servings :: int
  cook_time :: string
  ingredients :: "ingredient list"
  instructions :: "string list"

text \<open>\<open>round(x)\<close> of Python 3: to the nearest integer, a tie to the even one.\<close>

definition py_round :: "rat \<Rightarrow> int" where
  "py_round x =
     (let f = \<lfloor>x\<rfloor>; d = x - of_int f
      in if d < 1 / 2 then f else if 1 / 2 < d then f + 1 else if even f then f else f + 1)"

text \<open>\<open>int(x)\<close>: truncation towards zero.\<close>

definition py_int :: "rat \<Rightarrow> int" where
  "py_int x = (if 0 \<le> x then \<lfloor>x\<rfloor> else \<lceil>x\<rceil>)"

text \<open>\<open>f"{x:.1f}"\<close>: one decimal place, the sign kept, the last digit rounded half to even.\<close>

definition format_1f :: "rat \<Rightarrow> string" where
  "format_1f x =
     (let t = nat (py_round (\<bar>x\<bar> * 10))
      in (if x < 0 then ''-'' else '''') @ str_nat (t div 10) @ ''.'' @ str_nat (t mod 10))"

text \<open>The body of the loop of \<open>scale_ingredients\<close>: the text of one scaled ingredient.\<close>

definition scaled_text :: "rat \<Rightarrow> ingredient \<Rightarrow> string" where
  "scaled_text scale_factor ing =
     (let scaled_quantity = quantity ing * scale_factor
      in if unit ing \<in> set [''pieces'', ''cloves'', ''packet'']
         then str_int (py_round scaled_quantity) @ '' '' @ unit ing @ '' '' @ name ing
         else if scaled_quantity = of_int (py_int scaled_quantity)
         then str_int (py_int scaled_quantity) @ '' '' @ unit ing @ '' '' @ name ing
         else format_1f scaled_quantity @ '' '' @ unit ing @ '' '' @ name ing)"

text \<open>
  \<open>scale_ingredients(recipe, target_servings)\<close>. The division
  \<open>target_servings / recipe.default_servings\<close> raises \<open>ZeroDivisionError\<close> when the
  recipe's default is 0.
\<close>

definition scale_ingredients :: "recipe \<Rightarrow> int \<Rightarrow> py_error + string list" where
  "scale_ingredients recipe target_servings =
     (let target_servings' =
            (if target_servings \<le> 0 then default_servings recipe else target_servings)
      in if default_servings recipe = 0 then Inl ZeroDivisionError
         else (let scale_factor = of_int target_servings' / of_int (default_servings recipe)
               in Inr (map (scaled_text scale_factor) (ingredients recipe))))"

section \<open>recipe\_generator.py: RecipeGenerator\<close>

text \<open>
  A suggested recipe is the dictionary built by \<open>_format_recipe\<close> and
  \<open>_get_fallback_recipes\<close>: the fields of a recipe and the two image fields
  (\<open>image_data\<close> is \<open>None\<close>, the empty string or a file path).
\<close>

record suggested = recipe +
  image_data :: "string option"
  image_url :: string

text \<open>
  \<open>_generate_cache_key\<close>. \<open>hashlib.md5(...).hexdigest()\<close> is the library's and is the
  parameter \<open>md5_hex\<close>. \<open>sorted\<close> orders strings by code point, as the lexicographic order
  on \<open>string\<close> does.
\<close>

definition generate_cache_key :: "(string \<Rightarrow> string) \<Rightarrow> string list \<Rightarrow> string \<Rightarrow> string" where
  "generate_cache_key md5_hex cart_items session_id =
     (let sorted_items = sort cart_items;
          content = join '','' sorted_items @ '':'' @ session_id
      in md5_hex content)"

text \<open>\<open>_get_fallback_recipes\<close>: the three static recipes, from up to four cart items.\<close>

definition piece :: "string \<Rightarrow> ingredient" where
  "piece item = \<lparr>name = py_title item, quantity = 1, unit = ''piece''\<rparr>"

definition get_fallback_recipes :: "string list \<Rightarrow> suggested list" where
  "get_fallback_recipes cart_items =
     (let main_ingredients = (if 4 \<le> length cart_items then take 4 cart_items else cart_items);
          first = (\<lambda>d. case main_ingredients of [] \<Rightarrow> d | x # _ \<Rightarrow> x);
          fallback_recipes =
      [\<lparr>recipe_id = ''fallback_skillet_medley'',
        title = ''One-Skillet '' @ join '' & '' (take 2 main_ingredients) @ '' Medley'',
        description = ''A hearty one-pan dish that brings together your cart ingredients with simple seasonings for a satisfying meal.'',
        default_servings = 4,
        cook_time = ''25 minutes'',
        ingredients = map piece main_ingredients,
        instructions =
          [''Prepare all ingredients: wash and chop '' @ first ''vegetables'' @ '' into bite-sized pieces'',
           ''Heat a large skillet or pan over medium-high heat with a splash of oil'',
           ''Add '' @ first ''main ingredient'' @ '' to the pan and cook for 3-4 minutes until starting to soften'',
           ''Add '' @ (if 1 < length main_ingredients then join '', '' (take 2 (drop 1 main_ingredients))
                       else ''remaining ingredients'') @ '' and stir to combine'',
           ''Season generously with salt and pepper, then reduce heat to medium'',
           ''Cover and cook for 8-10 minutes, stirring occasionally, until all ingredients are tender'',
           ''Taste and adjust seasoning, then serve hot as a complete meal''],
        image_data = Some '''',
        image_url = ''''\<rparr>,
       \<lparr>recipe_id = ''fallback_fresh_combination'',
        title = ''Fresh '' @ first ''Ingredient'' @ '' Combination'',
        description = ''A light and flavorful dish that showcases your ingredients with minimal cooking for maximum freshness.'',
        default_servings = 3,
        cook_time = ''15 minutes'',
        ingredients = map piece (take 3 main_ingredients),
        instructions =
          [''Clean and prepare '' @ first ''ingredients'' @ '' by removing any unwanted parts and cutting into uniform pieces'',
           ''If using '' @ (if 1 < length main_ingredients then main_ingredients ! 1 else ''second ingredient'')
              @ '', prepare it by chopping or slicing as appropriate'',
           ''Arrange prepared ingredients in a large mixing bowl or serving dish'',
           ''Lightly season with salt and pepper to enhance natural flavors'',
           ''Gently toss or combine all ingredients, allowing flavors to meld'',
           ''Let stand for 5 minutes to allow ingredients to release their natural juices'',
           ''Serve immediately as a fresh, healthy dish that highlights each ingredient'' @ [CHR 0x27]
              @ ''s unique qualities''],
        image_data = Some '''',
        image_url = ''''\<rparr>,
       \<lparr>recipe_id = ''fallback_roasted_blend'',
        title = ''Roasted '' @ (if 2 \<le> length main_ingredients then join '' & '' (take 2 main_ingredients)
                                else ''Garden'') @ '' Blend'',
        description = ''Oven-roasted ingredients that develop deep, caramelized flavors through high-heat cooking.'',
        default_servings = 4,
        cook_time = ''30 minutes'',
        ingredients = map piece main_ingredients,
        instructions =
          [''Preheat your oven to 425'' @ [CHR 0xB0] @ ''F (220'' @ [CHR 0xB0]
              @ ''C) and line a large baking sheet with parchment paper'',
           ''Cut '' @ (if 2 \<le> length main_ingredients then join '', '' (take 2 main_ingredients)
                       else ''all ingredients'') @ '' into similar-sized pieces for even cooking'',
           ''Spread prepared ingredients in a single layer on the prepared baking sheet'',
           ''Drizzle lightly with oil and season generously with salt and pepper'',
           ''Toss everything together to ensure even coating of oil and seasonings'',
           ''Roast in preheated oven for 20-25 minutes, stirring once halfway through'',
           ''Continue cooking until ingredients are golden brown and tender when pierced with a fork'',
           ''Remove from oven and let cool for 2-3 minutes before serving hot''],
        image_data = Some '''',
        image_url = ''''\<rparr>]
      in take 3 fallback_recipes)"

text \<open>
  What is outside the class. \<open>run_agent\<close> is one run of the ADK agent on the prompt built from
  the cart items, under \<open>asyncio.wait_for(..., timeout=15.0)\<close>: the run times out, raises, or
  ends with the text of the final response event (\<open>None\<close> when there is no such event).
  \<open>format_recipe\<close> is \<open>_format_recipe\<close>, which gives the recipe of one draft or \<open>None\<close>
  where formatting raised. \<open>generate_image\<close> is the image call for one recipe, a file path or
  \<open>None\<close>; \<open>path_name\<close> is \<open>Path(p).name\<close>.
\<close>

datatype adk_outcome = AdkTimeout | AdkRaise | AdkFinal "string option"

record generator_env =
  md5_hex :: "string \<Rightarrow> string"
  run_agent :: "string list \<Rightarrow> adk_outcome"
  json_loads :: "string \<Rightarrow> json option"
  format_recipe :: "json \<Rightarrow> nat \<Rightarrow> string list \<Rightarrow> suggested option"
  generate_image :: "suggested \<Rightarrow> string option"
  is_development :: bool
  path_name :: "string \<Rightarrow> string"

text \<open>
  The positional arguments a background thread is started with. \<open>generate_suggested_recipes\<close>
  starts \<open>generate_images_for_recipes\<close> with \<open>(recipes, session_id)\<close> on a cache hit and
  with \<open>(recipes, cart_items, session_id)\<close> on a miss.
\<close>

datatype thread_args =
  Args2 "suggested list" string
| Args3 "suggested list" "string list" string

text \<open>
  The state of a \<open>RecipeGenerator\<close>. \<open>cache\<close> is the content of the \<open>TTLCache\<close> as a
  call sees it (expiry and eviction of other keys happen between the calls); \<open>threads\<close> are
  the threads started so far, in order; \<open>agent_calls\<close> records each run of the agent, with
  its cart items.
\<close>

record generator =
  cache :: "string \<rightharpoonup> suggested list"
  adk_available :: bool
  has_recipe_agent :: bool
  genai_available :: bool
  threads :: "thread_args list"
  agent_calls :: "string list list"

text \<open>The removal of the Markdown fence around the response, in \<open>_run_adk_agent\<close>.\<close>

definition clean_response :: "string \<Rightarrow> string" where
  "clean_response final_response_text =
     (let c0 = strip final_response_text;
          c1 = (if startswith c0 ''```json'' then drop 7 c0 else c0);
          c2 = (if startswith c1 ''```'' then drop 3 c1 else c1);
          c3 = (if endswith c2 ''```'' then take (length c2 - 3) c2 else c2)
      in strip c3)"

text \<open>
  \<open>recipes_data[:3]\<close> and the iteration over it: a list gives its first three elements, a
  string its first three characters, anything else raises.
\<close>

fun first_three :: "json \<Rightarrow> py_error + json list" where
  "first_three (JArr xs) = Inr (take 3 xs)"
| "first_three (JStr s) = Inr (map (\<lambda>c. JStr [c]) (take 3 s))"
| "first_three _ = Inl TypeError"

fun format_all :: "generator_env \<Rightarrow> string list \<Rightarrow> nat \<Rightarrow> json list \<Rightarrow> suggested list" where
  "format_all env cart_items i [] = []"
| "format_all env cart_items i (recipe_data # rest) =
     (case format_recipe env recipe_data i cart_items of
        Some recipe \<Rightarrow> recipe # format_all env cart_items (Suc i) rest
      | None \<Rightarrow> format_all env cart_items (Suc i) rest)"

definition run_adk_agent ::
  "generator_env \<Rightarrow> string option \<Rightarrow> string list \<Rightarrow> py_error + suggested list" where
  "run_adk_agent env final cart_items =
     (case map_option strip final of
        None \<Rightarrow> Inl (Exception ''No final response received from ADK agent'')
      | Some final_response_text \<Rightarrow>
          if final_response_text = [] then Inl (Exception ''No final response received from ADK agent'')
          else (case json_loads env (clean_response final_response_text) of
                  None \<Rightarrow> Inl (Exception ''Invalid JSON response from ADK agent'')
                | Some recipes_data \<Rightarrow>
                    (case first_three recipes_data of
                       Inl e \<Rightarrow> Inl e
                     | Inr drafts \<Rightarrow> Inr (format_all env cart_items 0 drafts))))"

definition generate_with_adk ::
  "generator_env \<Rightarrow> generator \<Rightarrow> string list \<Rightarrow> py_error + suggested list" where
  "generate_with_adk env g cart_items =
     (if \<not> adk_available g \<or> \<not> has_recipe_agent g then Inl (Exception ''ADK not available'')
      else (case run_agent env cart_items of
              AdkTimeout \<Rightarrow> Inr (get_fallback_recipes cart_items)
            | AdkRaise \<Rightarrow> Inl (Exception ''ADK agent'')
            | AdkFinal final \<Rightarrow> run_adk_agent env final cart_items))"

text \<open>
  \<open>generate_suggested_recipes\<close>: the recipes returned and the state after the call. The
  statements after \<open>return\<close> in the \<open>except\<close> block are never executed.
\<close>

definition generate_suggested_recipes ::
  "generator_env \<Rightarrow> generator \<Rightarrow> string list \<Rightarrow> string \<Rightarrow> suggested list \<times> generator" where
  "generate_suggested_recipes env g cart_items session_id =
     (if length cart_items < 2 then (get_fallback_recipes cart_items, g)
      else
        (let cache_key = generate_cache_key (md5_hex env) cart_items session_id
         in case cache g cache_key of
              Some recipes \<Rightarrow>
                (recipes, g\<lparr>threads := threads g @ [Args2 recipes session_id]\<rparr>)
            | None \<Rightarrow>
                if adk_available g \<and> has_recipe_agent g
                then (let g1 = g\<lparr>agent_calls := agent_calls g @ [cart_items]\<rparr>
                      in case generate_with_adk env g1 cart_items of
                           Inl e \<Rightarrow> (get_fallback_recipes cart_items, g1)
                         | Inr recipes \<Rightarrow>
                             (recipes,
                              g1\<lparr>cache := (cache g1)(cache_key \<mapsto> recipes),
                                 threads := threads g1 @ [Args3 recipes cart_items session_id]\<rparr>))
                else (let recipes = get_fallback_recipes cart_items
                      in (recipes,
                          g\<lparr>cache := (cache g)(cache_key \<mapsto> recipes),
                            threads := threads g @ [Args3 recipes cart_items session_id]\<rparr>))))"

text \<open>
  \<open>_generate_single_recipe_image_async\<close>: a copy of the recipe with its image fields set.
\<close>

fun replace_all :: "string \<Rightarrow> string \<Rightarrow> string \<Rightarrow> string" where
  "replace_all old new [] = []"
| "replace_all old new (c # cs) =
     (if old \<noteq> [] \<and> startswith (c # cs) old
      then new @ replace_all old new (drop (length old) (c # cs))
      else c # replace_all old new cs)"

definition generate_single_recipe_image :: "generator_env \<Rightarrow> suggested \<Rightarrow> suggested" where
  "generate_single_recipe_image env recipe =
     (case generate_image env recipe of
        None \<Rightarrow> recipe\<lparr>image_data := None, image_url := ''''\<rparr>
      | Some image_file_path \<Rightarrow>
          if image_file_path = [] then recipe\<lparr>image_data := None, image_url := ''''\<rparr>
          else
            (let optimized_path =
                   (if endswith image_file_path ''_optimized.jpg'' then image_file_path
                    else replace_all ''.jpg'' ''_optimized.jpg'' image_file_path);
                 image_filename = path_name env optimized_path
             in recipe\<lparr>image_data := Some image_file_path,
                        image_url := (if is_development env
                                      then ''/static/images/recipes/'' @ image_filename
                                      else '''')\<rparr>))"

definition add_images_to_recipes_parallel :: "generator_env \<Rightarrow> suggested list \<Rightarrow> suggested list" where
  "add_images_to_recipes_parallel env recipes = map (generate_single_recipe_image env) recipes"

text \<open>
  \<open>generate_images_for_recipes(recipes, cart_items, session_id)\<close>, the body of the
  background thread: it replaces the cache entry under the key of the cart.
\<close>

definition generate_images_for_recipes ::
  "generator_env \<Rightarrow> generator \<Rightarrow> suggested list \<Rightarrow> string list \<Rightarrow> string \<Rightarrow> generator" where
  "generate_images_for_recipes env g recipes cart_items session_id =
     (if \<not> genai_available g then g
      else (let cache_key = generate_cache_key (md5_hex env) cart_items session_id;
                enhanced_recipes = add_images_to_recipes_parallel env recipes
            in if enhanced_recipes \<noteq> [] then g\<lparr>cache := (cache g)(cache_key \<mapsto> enhanced_recipes)\<rparr>
               else g))"

text \<open>
  The run of a started thread: Python binds the positional arguments to the three parameters
  \<open>recipes\<close>, \<open>cart_items\<close>, \<open>session_id\<close>, none of which has a default, and raises
  \<open>TypeError\<close> in the thread when one is missing.
\<close>

fun run_thread :: "generator_env \<Rightarrow> generator \<Rightarrow> thread_args \<Rightarrow> py_error + generator" where
  "run_thread env g (Args3 recipes cart_items session_id) =
     Inr (generate_images_for_recipes env g recipes cart_items session_id)"
| "run_thread env g (Args2 recipes session_id) = Inl TypeError"

text \<open>Example environments and generator states, used to evaluate the functions above.\<close>

definition empty_reply_env :: generator_env where
  "empty_reply_env =
     \<lparr>md5_hex = (\<lambda>s. s),
      run_agent = (\<lambda>cart_items. AdkFinal (Some ''[]'')),
      json_loads = (\<lambda>s. if s = ''[]'' then Some (JArr []) else None),
      format_recipe = (\<lambda>recipe_data i cart_items. None),
      generate_image = (\<lambda>recipe. None),
      is_development = False,
      path_name = (\<lambda>p. p)\<rparr>"

definition four_drafts_env :: generator_env where
  "four_drafts_env =
     \<lparr>md5_hex = (\<lambda>s. s),
      run_agent = (\<lambda>cart_items. AdkFinal (Some ''[{}, {}, {}, {}]'')),
      json_loads = (\<lambda>s. if s = ''[{}, {}, {}, {}]''
                        then Some (JArr [JObj [], JObj [], JObj [], JObj []]) else None),
      format_recipe = (\<lambda>recipe_data i cart_items.
                         case get_fallback_recipes cart_items of [] \<Rightarrow> None | r # _ \<Rightarrow> Some r),
      generate_image = (\<lambda>recipe. None),
      is_development = False,
      path_name = (\<lambda>p. p)\<rparr>"

definition fresh_generator :: generator where
  "fresh_generator =
     \<lparr>cache = Map.empty, adk_available = True, has_recipe_agent = True,
      genai_available = True, threads = [], agent_calls = []\<rparr>"

definition warm_generator :: generator where
  "warm_generator =
     \<lparr>cache = [''Garlic,Lemon:s1'' \<mapsto> get_fallback_recipes [''Garlic'', ''Lemon'']],
      adk_available = True, has_recipe_agent = True,
      genai_available = True, threads = [], agent_calls = []\<rparr>"

section \<open>multi\_tool\_agent/agent.py: process\_recipe\<close>

text \<open>
  \<open>call_a2a_agent\<close> catches every exception of the remote call and returns a dictionary
  whose status is \<open>"success"\<close>, with the response text, or \<open>"error"\<close>, with the message.
\<close>

datatype a2a_result = A2ASuccess string | A2AError string

text \<open>
  What \<open>process_recipe\<close> reaches outside itself: the two agents behind
  \<open>call_a2a_agent(agent_url, message_text)\<close>, \<open>json.loads\<close> (\<open>None\<close> for
  \<open>JSONDecodeError\<close>; an object is decoded to its items, each key once), and \<open>repr\<close> for the
  decoded values that an f-string formats.
\<close>

record agent_env =
  call_a2a_agent :: "string \<Rightarrow> string \<Rightarrow> a2a_result"
  loads :: "string \<Rightarrow> json option"
  repr :: "json \<Rightarrow> string"

text \<open>
  The dictionary returned by \<open>process_recipe\<close>. A key that the dictionary does not have is
  \<open>None\<close>; \<open>extracted_ingredients\<close> is the key \<open>"ingredients"\<close>.
\<close>

record process_result =
  status :: string
  message :: string
  extracted_ingredients :: "string list"
  matched_products :: "json option"
  product_details :: "json option"
  matched_ingredients :: "json option"
  unmatched_ingredients :: "json option"

text \<open>\<open>d.get(key, default)\<close>, \<open>len(v)\<close> being defined, iteration over a decoded value,
  \<open>sep.join(v)\<close> and \<open>str(v)\<close> in an f-string.\<close>

definition dict_get :: "(string \<times> json) list \<Rightarrow> string \<Rightarrow> json \<Rightarrow> json" where
  "dict_get kvs key dflt = (case map_of kvs key of Some v \<Rightarrow> v | None \<Rightarrow> dflt)"

fun sized :: "json \<Rightarrow> bool" where
  "sized (JArr xs) = True"
| "sized (JStr s) = True"
| "sized (JObj kvs) = True"
| "sized _ = False"

fun py_iter :: "json \<Rightarrow> py_error + json list" where
  "py_iter (JArr xs) = Inr xs"
| "py_iter (JStr s) = Inr (map (\<lambda>c. JStr [c]) s)"
| "py_iter (JObj kvs) = Inr (map (\<lambda>kv. JStr (fst kv)) kvs)"
| "py_iter _ = Inl TypeError"

fun strings_of :: "json list \<Rightarrow> py_error + string list" where
  "strings_of [] = Inr []"
| "strings_of (JStr s # xs) =
     (case strings_of xs of Inl e \<Rightarrow> Inl e | Inr ss \<Rightarrow> Inr (s # ss))"
| "strings_of (_ # xs) = Inl TypeError"

definition py_join :: "string \<Rightarrow> json \<Rightarrow> py_error + string" where
  "py_join sep v =
     (case py_iter v of
        Inl e \<Rightarrow> Inl e
      | Inr xs \<Rightarrow> (case strings_of xs of Inl e \<Rightarrow> Inl e | Inr ss \<Rightarrow> Inr (join sep ss)))"

fun py_str :: "(json \<Rightarrow> string) \<Rightarrow> json \<Rightarrow> string" where
  "py_str r (JStr s) = s"
| "py_str r JNull = ''None''"
| "py_str r (JBool b) = (if b then ''True'' else ''False'')"
| "py_str r v = r v"

text \<open>The loop over \<open>product_details\<close>: \<open>product.get\<close> raises on anything but an object.\<close>

fun matching_details_of :: "(json \<Rightarrow> string) \<Rightarrow> json list \<Rightarrow> py_error + string list" where
  "matching_details_of r [] = Inr []"
| "matching_details_of r (JObj product # rest) =
     (let product_id = dict_get product ''id'' (JStr ''unknown'');
          product_name = dict_get product ''name'' (JStr ''Unknown Product'')
      in case matching_details_of r rest of
           Inl e \<Rightarrow> Inl e
         | Inr ds \<Rightarrow> Inr ((py_str r product_id @ '' ('' @ py_str r product_name @ '')'') # ds))"
| "matching_details_of r (_ # rest) = Inl AttributeError"

text \<open>
  The inner \<open>try\<close> of \<open>process_recipe\<close>, which reads the matcher's response. It gives
  \<open>matched_products\<close>, \<open>product_details\<close>, \<open>matched_ingredients\<close>,
  \<open>unmatched_ingredients\<close> and \<open>matching_details\<close>. Its handler catches
  \<open>JSONDecodeError\<close> and \<open>KeyError\<close> only; any other exception leaves it (\<open>Inl\<close>).
\<close>

definition read_match_response ::
  "agent_env \<Rightarrow> string \<Rightarrow> py_error + (json \<times> json \<times> json \<times> json \<times> string list)" where
  "read_match_response env response_text =
     (if response_text = [] then Inr (JArr [], JArr [], JArr [], JArr [], [])
      else (case loads env response_text of
              None \<Rightarrow> Inr (JArr [], JArr [], JArr [], JArr [], [])
            | Some (JObj ingredient_response) \<Rightarrow>
                (let matched_products = dict_get ingredient_response ''product_ids'' (JArr []);
                     product_details = dict_get ingredient_response ''products'' (JArr []);
                     matched_ingredients =
                       dict_get ingredient_response ''matched_ingredients'' (JArr []);
                     unmatched_ingredients =
                       dict_get ingredient_response ''unmatched_ingredients'' (JArr [])
                 in if \<not> sized matched_products then Inl TypeError
                    else (case py_iter product_details of
                            Inl e \<Rightarrow> Inl e
                          | Inr products \<Rightarrow>
                              (case matching_details_of (repr env) products of
                                 Inl e \<Rightarrow> Inl e
                               | Inr matching_details \<Rightarrow>
                                   Inr (matched_products, product_details, matched_ingredients,
                                        unmatched_ingredients, matching_details))))
            | Some _ \<Rightarrow> Inl AttributeError))"

definition extract_ingredients :: "string \<Rightarrow> string list" where
  "extract_ingredients recipe_text = map strip (split_on CHR '','' recipe_text)"

text \<open>The result of the \<open>except Exception\<close> handler of \<open>process_recipe\<close>.\<close>

definition fallback_result :: "string \<Rightarrow> process_result" where
  "fallback_result recipe_text =
     (let ingredients = extract_ingredients recipe_text
      in \<lparr>status = ''success'',
          message = ''Recipe processed successfully (fallback). Extracted ''
                      @ str_nat (length ingredients) @ '' ingredients: '' @ join '', '' ingredients,
          extracted_ingredients = ingredients,
          matched_products = None, product_details = None,
          matched_ingredients = None, unmatched_ingredients = None\<rparr>)"

text \<open>The call of the cart adder, made only when the text is not an availability check.\<close>

definition cart_step :: "agent_env \<Rightarrow> string \<Rightarrow> string \<Rightarrow> json \<Rightarrow> py_error + bool" where
  "cart_step env recipe_text user_id product_ids =
     (let should_add_to_cart = \<not> startswith (py_lower recipe_text) ''check ingredient availability''
      in if should_add_to_cart
         then (case py_join '', '' product_ids of
                 Inl e \<Rightarrow> Inl e
               | Inr ids \<Rightarrow>
                   (case call_a2a_agent env ''http://cartadderagent:8080''
                           (''Add these products to cart for user '' @ user_id @ '': '' @ ids) of
                      A2AError e \<Rightarrow> Inl (Exception (''Cart addition failed: '' @ e))
                    | A2ASuccess response_text \<Rightarrow> Inr True))
         else Inr False)"

text \<open>The body of the outer \<open>try\<close> of \<open>process_recipe\<close>.\<close>

definition process_recipe_body :: "agent_env \<Rightarrow> string \<Rightarrow> string \<Rightarrow> py_error + process_result" where
  "process_recipe_body env recipe_text user_id =
     (let ingredients = extract_ingredients recipe_text;
          ingredients_message =
            ''Match these ingredients to product IDs: '' @ join '', '' ingredients
      in case call_a2a_agent env ''http://ingredientmatcheragent:8080'' ingredients_message of
           A2AError e \<Rightarrow> Inl (Exception (''Ingredient matching failed: '' @ e))
         | A2ASuccess response_text \<Rightarrow>
             (case read_match_response env response_text of
                Inl e \<Rightarrow> Inl e
              | Inr (matched_products', product_details', matched_ingredients',
                     unmatched_ingredients', matching_details) \<Rightarrow>
                  (case cart_step env recipe_text user_id matched_products' of
                     Inl e \<Rightarrow> Inl e
                   | Inr added \<Rightarrow>
                       (case (if matching_details \<noteq> []
                              then (case py_join '', '' matched_ingredients' of
                                      Inl e \<Rightarrow> Inl e
                                    | Inr ingredient_list \<Rightarrow>
                                        Inr (''Recipe processed via A2A protocol. Matched products: ''
                                             @ join '', '' matching_details
                                             @ ''. From ingredients: '' @ ingredient_list))
                              else Inr (''Recipe processed via A2A protocol. No products matched from ingredients: ''
                                        @ join '', '' ingredients)) of
                          Inl e \<Rightarrow> Inl e
                        | Inr detailed_message \<Rightarrow>
                            Inr \<lparr>status = ''success'',
                                 message = detailed_message,
                                 extracted_ingredients = ingredients,
                                 matched_products = Some matched_products',
                                 product_details = Some product_details',
                                 matched_ingredients = Some matched_ingredients',
                                 unmatched_ingredients = Some unmatched_ingredients'\<rparr>))))"

definition process_recipe :: "agent_env \<Rightarrow> string \<Rightarrow> string \<Rightarrow> process_result" where
  "process_recipe env recipe_text user_id =
     (case process_recipe_body env recipe_text user_id of
        Inl e \<Rightarrow> fallback_result recipe_text
      | Inr final_result \<Rightarrow> final_result)"

text \<open>Example environments: the matcher is down; the matcher answers and the cart adder is down.\<close>

definition matcher_down_env :: agent_env where
  "matcher_down_env =
     \<lparr>call_a2a_agent = (\<lambda>agent_url message_text. A2AError ''All connection attempts failed''),
      loads = (\<lambda>s. None),
      repr = (\<lambda>v. '''')\<rparr>"

definition cart_down_env :: agent_env where
  \<open>cart_down_env =
     \<lparr>call_a2a_agent = (\<lambda>agent_url message_text.
         if agent_url = ''http://ingredientmatcheragent:8080''
         then A2ASuccess ''{"product_ids": ["GARLIC001"], "matched_ingredients": ["Garlic"]}''
         else A2AError ''All connection attempts failed''),
      loads = (\<lambda>s.
         if s = ''{"product_ids": ["GARLIC001"], "matched_ingredients": ["Garlic"]}''
         then Some (JObj [(''product_ids'', JArr [JStr ''GARLIC001'']),
                          (''matched_ingredients'', JArr [JStr ''Garlic''])])
         else None),
      repr = (\<lambda>v. '''')\<rparr>\<close>

section \<open>Regular expressions of the \<open>re\<close> module\<close>

text \<open>
  The patterns of the source are kept as syntax trees, one constructor for each construct
  they use: a literal (matched ignoring case, as all of them are compiled with
  \<open>re.IGNORECASE\<close> or have no letters), \<open>c+\<close> and \<open>c*\<close> for a character class \<open>c\<close>,
  \<open>r?\<close>, sequence, alternation, \<open>\b\<close>, \<open>^\<close> and \<open>$\<close>.
\<close>

datatype cclass = Digit | Space | NotNewline | NoneOf string | AnyOf string | DigitSpaceSlash

fun in_class :: "cclass \<Rightarrow> char \<Rightarrow> bool" where
  "in_class Digit c = is_digit c"
| "in_class Space c = is_space c"
| "in_class NotNewline c = (c \<noteq> CHR 0x0A)"
| "in_class (NoneOf s) c = (c \<notin> set s)"
| "in_class (AnyOf s) c = (c \<in> set s)"
| "in_class DigitSpaceSlash c = (is_digit c \<or> is_space c \<or> c = CHR ''/'')"

datatype rx = Lit string | Plus cclass | Star cclass | Opt rx | Seq rx rx | Alt rx rx
  | WordB | Bos | Eos

text \<open>
  A position in the subject string: the character before it (\<open>None\<close> at the start of the
  string) and the rest of the string.
\<close>

type_synonym rx_state = "char option \<times> string"

definition is_word :: "char \<Rightarrow> bool" where
  "is_word c \<longleftrightarrow> is_upper c \<or> is_lower c \<or> is_digit c \<or> c = CHR ''_''"

fun lit_match :: "string \<Rightarrow> rx_state \<Rightarrow> rx_state option" where
  "lit_match [] st = Some st"
| "lit_match (p # ps) (prev, []) = None"
| "lit_match (p # ps) (prev, c # cs) =
     (if to_lower c = to_lower p then lit_match ps (Some c, cs) else None)"

text \<open>The positions after a greedy run of a class, the longest run first, the empty run last.\<close>

fun greedy :: "cclass \<Rightarrow> rx_state \<Rightarrow> rx_state list" where
  "greedy k (prev, []) = [(prev, [])]"
| "greedy k (prev, c # cs) =
     (if in_class k c then greedy k (Some c, cs) @ [(prev, c # cs)] else [(prev, c # cs)])"

text \<open>
  The backtracking matcher: \<open>rx_match r st\<close> lists the positions where a match of \<open>r\<close> that
  starts at \<open>st\<close> can end, in the order in which the engine tries them. The match that
  \<open>re\<close> reports is the first one.
\<close>

fun rx_match :: "rx \<Rightarrow> rx_state \<Rightarrow> rx_state list" where
  "rx_match (Lit s) st = (case lit_match s st of Some st' \<Rightarrow> [st'] | None \<Rightarrow> [])"
| "rx_match (Plus k) st = butlast (greedy k st)"
| "rx_match (Star k) st = greedy k st"
| "rx_match (Opt r) st = rx_match r st @ [st]"
| "rx_match (Seq r1 r2) st = concat (map (rx_match r2) (rx_match r1 st))"
| "rx_match (Alt r1 r2) st = rx_match r1 st @ rx_match r2 st"
| "rx_match WordB st =
     (if (case fst st of None \<Rightarrow> False | Some c \<Rightarrow> is_word c)
         \<noteq> (case snd st of [] \<Rightarrow> False | c # _ \<Rightarrow> is_word c) then [st] else [])"
| "rx_match Bos st = (if fst st = None then [st] else [])"
| "rx_match Eos st = (if snd st = [] \<or> snd st = [CHR 0x0A] then [st] else [])"

fun seqs :: "rx list \<Rightarrow> rx" where
  "seqs [] = Lit []"
| "seqs [r] = r"
| "seqs (r # rs) = Seq r (seqs rs)"

fun alts :: "rx list \<Rightarrow> rx" where
  "alts [] = Plus (AnyOf [])"
| "alts [r] = r"
| "alts (r # rs) = Alt r (alts rs)"

text \<open>
  \<open>re.sub(r, '', s)\<close>: from left to right, a non-empty match is deleted and the scan goes on
  behind it; where there is none the character is kept. (After an empty match the engine
  looks for a non-empty one at the same position, so the first non-empty match is the one
  deleted.)
\<close>

definition first_nonempty :: "rx \<Rightarrow> rx_state \<Rightarrow> rx_state option" where
  "first_nonempty r st = find (\<lambda>st'. length (snd st') < length (snd st)) (rx_match r st)"

function sub_from :: "rx \<Rightarrow> char option \<Rightarrow> string \<Rightarrow> string" where
  "sub_from r prev [] = []"
| "sub_from r prev (c # cs) =
     (case first_nonempty r (prev, c # cs) of
        Some st' \<Rightarrow> sub_from r (fst st') (snd st')
      | None \<Rightarrow> c # sub_from r (Some c) cs)"
  by pat_completeness auto
termination
proof (relation "measure (\<lambda>(r, prev, s). length s)")
  fix r :: rx and prev :: "char option" and c :: char and cs :: string and st' :: rx_state
  assume "first_nonempty r (prev, c # cs) = Some st'"
  then have "length (snd st') < length (c # cs)"
    by (auto simp: first_nonempty_def find_Some_iff)
  then show "((r, fst st', snd st'), (r, prev, c # cs)) \<in> measure (\<lambda>(r, prev, s). length s)"
    by (simp add: case_prod_beta)
qed simp_all

definition re_sub_empty :: "rx \<Rightarrow> string \<Rightarrow> string" where
  "re_sub_empty r s = sub_from r None s"

text \<open>
  \<open>re.search(r + '(' + g + ')', s).group(1)\<close> for a pattern that ends with its only group:
  the leftmost position where the pattern matches, and there the text of the group in the
  first match.
\<close>

fun search_from :: "rx \<Rightarrow> rx \<Rightarrow> char option \<Rightarrow> string \<Rightarrow> string option" where
  "search_from r g prev s =
     (case find (\<lambda>st. rx_match g st \<noteq> []) (rx_match r (prev, s)) of
        Some st \<Rightarrow> Some (take (length (snd st) - length (snd (hd (rx_match g st)))) (snd st))
      | None \<Rightarrow> (case s of [] \<Rightarrow> None | c # cs \<Rightarrow> search_from r g (Some c) cs))"

definition re_search_group :: "rx \<Rightarrow> rx \<Rightarrow> string \<Rightarrow> string option" where
  "re_search_group r g s = search_from r g None s"

section \<open>ingredientmatcheragent/agent\_server.py: \_parse\_ingredients\<close>

text \<open>
  The alternation of unit words of the quantity prefix:
  \<^verbatim>\<open>(?:cups?|tablespoons?|tbsp|teaspoons?|tsp|pounds?|pound|lbs?|lb|ounces?|ounce|oz|pieces?|piece|cloves?|clove|slices?|slice|cans?|can|packages?|package|pkg)\<close>
\<close>

definition unit_words :: rx where
  "unit_words = alts
     [Seq (Lit ''cup'') (Opt (Lit ''s'')), Seq (Lit ''tablespoon'') (Opt (Lit ''s'')), Lit ''tbsp'',
      Seq (Lit ''teaspoon'') (Opt (Lit ''s'')), Lit ''tsp'', Seq (Lit ''pound'') (Opt (Lit ''s'')),
      Lit ''pound'', Seq (Lit ''lb'') (Opt (Lit ''s'')), Lit ''lb'',
      Seq (Lit ''ounce'') (Opt (Lit ''s'')), Lit ''ounce'', Lit ''oz'',
      Seq (Lit ''piece'') (Opt (Lit ''s'')), Lit ''piece'', Seq (Lit ''clove'') (Opt (Lit ''s'')),
      Lit ''clove'', Seq (Lit ''slice'') (Opt (Lit ''s'')), Lit ''slice'',
      Seq (Lit ''can'') (Opt (Lit ''s'')), Lit ''can'', Seq (Lit ''package'') (Opt (Lit ''s'')),
      Lit ''package'', Lit ''pkg'']"

text \<open>The quantity prefix: \<^verbatim>\<open>^\d+(?:\.\d+)?\s+(?:...)\s+\<close> with the unit words.\<close>

definition quantity_prefix :: rx where
  "quantity_prefix = seqs
     [Bos, Plus Digit, Opt (Seq (Lit ''.'') (Plus Digit)), Plus Space, unit_words, Plus Space]"

text \<open>The words that the alternation \<open>unit_words\<close> matches, in lower case.\<close>

definition unit_vocabulary :: "string list" where
  "unit_vocabulary =
     [''cup'', ''cups'', ''tablespoon'', ''tablespoons'', ''tbsp'', ''teaspoon'', ''teaspoons'',
      ''tsp'', ''pound'', ''pounds'', ''lb'', ''lbs'', ''ounce'', ''ounces'', ''oz'', ''piece'',
      ''pieces'', ''clove'', ''cloves'', ''slice'', ''slices'', ''can'', ''cans'', ''package'',
      ''packages'', ''pkg'']"

text \<open>
  The five modifier patterns of \<open>clean_ingredient_name\<close>, in the order of the list:
  \<^verbatim>\<open>\b(?:fresh|grated|chopped|diced|sliced|minced|crushed|ground|whole)\b\<close>,
  \<^verbatim>\<open>\b(?:thinly|finely|coarsely|roughly)\s+(?:sliced|chopped|diced|minced)\b\<close>,
  \<^verbatim>\<open>\b(?:cut\s+into\s+(?:strips|pieces|chunks))\b\<close>,
  \<^verbatim>\<open>\b(?:mixed|large|small|medium)\b\<close>,
  \<^verbatim>\<open>\s+(?:cut\s+into\s+strips|thinly\s+sliced|finely\s+chopped)\b\<close>.
\<close>

definition modifiers :: "rx list" where
  "modifiers =
     [seqs [WordB, alts [Lit ''fresh'', Lit ''grated'', Lit ''chopped'', Lit ''diced'', Lit ''sliced'',
                         Lit ''minced'', Lit ''crushed'', Lit ''ground'', Lit ''whole''], WordB],
      seqs [WordB, alts [Lit ''thinly'', Lit ''finely'', Lit ''coarsely'', Lit ''roughly''], Plus Space,
            alts [Lit ''sliced'', Lit ''chopped'', Lit ''diced'', Lit ''minced''], WordB],
      seqs [WordB, Lit ''cut'', Plus Space, Lit ''into'', Plus Space,
            alts [Lit ''strips'', Lit ''pieces'', Lit ''chunks''], WordB],
      seqs [WordB, alts [Lit ''mixed'', Lit ''large'', Lit ''small'', Lit ''medium''], WordB],
      seqs [Plus Space,
            alts [seqs [Lit ''cut'', Plus Space, Lit ''into'', Plus Space, Lit ''strips''],
                  seqs [Lit ''thinly'', Plus Space, Lit ''sliced''],
                  seqs [Lit ''finely'', Plus Space, Lit ''chopped'']], WordB]]"

definition clean_ingredient_name :: "string \<Rightarrow> string" where
  "clean_ingredient_name ingredient =
     (let cleaned = fold re_sub_empty modifiers ingredient;
          cleaned' = join '' '' (split_ws cleaned)
      in strip cleaned')"

text \<open>The dictionary \<open>ingredient_mapping\<close>, in the order of its keys.\<close>

definition ingredient_mapping :: "(string \<times> string) list" where
  "ingredient_mapping =
     [(''chicken breast'', ''Chicken Breast''),
      (''chicken'', ''Chicken Breast''),
      (''ground beef'', ''Ground Beef''),
      (''beef'', ''Ground Beef''),
      (''salmon fillets'', ''Salmon Fillets''),
      (''salmon'', ''Salmon Fillets''),
      (''garlic'', ''Garlic''),
      (''ginger'', ''Ginger''),
      (''bell pepper'', ''Bell Peppers''),
      (''bell peppers'', ''Bell Peppers''),
      (''peppers'', ''Bell Peppers''),
      (''yellow onion'', ''Yellow Onion''),
      (''onion'', ''Yellow Onion''),
      (''onions'', ''Yellow Onion''),
      (''roma tomatoes'', ''Roma Tomatoes''),
      (''tomatoes'', ''Roma Tomatoes''),
      (''tomato'', ''Roma Tomatoes''),
      (''lettuce'', ''Lettuce''),
      (''carrots'', ''Carrots''),
      (''carrot'', ''Carrots''),
      (''celery'', ''Celery''),
      (''cucumber'', ''Cucumber''),
      (''mixed greens'', ''Mixed Greens''),
      (''avocado'', ''Avocado''),
      (''cheddar cheese'', ''Cheddar Cheese''),
      (''cheese'', ''Cheddar Cheese''),
      (''whole milk'', ''Whole Milk''),
      (''milk'', ''Whole Milk''),
      (''large eggs'', ''Large Eggs''),
      (''eggs'', ''Large Eggs''),
      (''flour tortillas'', ''Flour Tortillas''),
      (''tortillas'', ''Flour Tortillas''),
      (''whole wheat bread'', ''Whole Wheat Bread''),
      (''bread'', ''Whole Wheat Bread''),
      (''jasmine rice'', ''Jasmine Rice''),
      (''rice'', ''Jasmine Rice''),
      (''egg noodles'', ''Egg Noodles''),
      (''noodles'', ''Egg Noodles''),
      (''olive oil'', ''Olive Oil''),
      (''sesame oil'', ''Sesame Oil''),
      (''vegetable oil'', ''Vegetable Oil''),
      (''soy sauce'', ''Soy Sauce''),
      (''chicken broth'', ''Chicken Broth''),
      (''vegetable broth'', ''Vegetable Broth''),
      (''broth'', ''Chicken Broth''),
      (''sea salt'', ''Sea Salt''),
      (''salt'', ''Sea Salt''),
      (''fresh thyme'', ''Fresh Thyme''),
      (''thyme'', ''Fresh Thyme''),
      (''fresh dill'', ''Fresh Dill''),
      (''dill'', ''Fresh Dill''),
      (''taco seasoning'', ''Taco Seasoning''),
      (''taco shells'', ''Taco Shells''),
      (''bananas'', ''Bananas''),
      (''banana'', ''Bananas''),
      (''lemon'', ''Lemon''),
      (''lemons'', ''Lemon'')]"

text \<open>
  The lookup of a cleaned name: the exact match of the lower-cased name, else the first key of
  the dictionary that occurs in it.
\<close>

definition mapped_ingredient :: "string \<Rightarrow> string option" where
  "mapped_ingredient clean_ingredient =
     (let normalized_ingredient = py_lower clean_ingredient
      in case map_of ingredient_mapping normalized_ingredient of
           Some product_name \<Rightarrow> Some product_name
         | None \<Rightarrow> map_option snd
             (find (\<lambda>(search_term, product_name). contains search_term normalized_ingredient)
                   ingredient_mapping))"

text \<open>The strip of the quantity prefix, the first statement of both loops.\<close>

definition strip_quantity_prefix :: "string \<Rightarrow> string" where
  "strip_quantity_prefix raw_ingredient = re_sub_empty quantity_prefix raw_ingredient"

text \<open>
  The body of the loop over \<open>raw_ingredients\<close>, the same in both branches of
  \<open>_parse_ingredients\<close>: it gives \<open>found_ingredients\<close> after one item.
\<close>

definition add_ingredient :: "string \<Rightarrow> string list \<Rightarrow> string list" where
  "add_ingredient raw_ingredient found_ingredients =
     (let clean_ingredient = clean_ingredient_name (strip_quantity_prefix raw_ingredient)
      in if clean_ingredient = [] then found_ingredients
         else (case mapped_ingredient clean_ingredient of
                 Some mapped \<Rightarrow>
                   if mapped \<in> set found_ingredients then found_ingredients
                   else found_ingredients @ [mapped]
               | None \<Rightarrow>
                   if clean_ingredient \<in> set found_ingredients then found_ingredients
                   else found_ingredients @ [clean_ingredient]))"

text \<open>
  The two headers of an ingredient list, \<^verbatim>\<open>cart \(serves \d+\):\s*(.+)\<close> and
  \<^verbatim>\<open>check ingredient availability:\s*(.+)\<close>, without their group \<^verbatim>\<open>(.+)\<close>.
\<close>

definition cart_header :: rx where
  "cart_header = seqs [Lit ''cart (serves '', Plus Digit, Lit ''):'', Star Space]"

definition availability_header :: rx where
  "availability_header = seqs [Lit ''check ingredient availability:'', Star Space]"

definition parse_ingredients :: "string \<Rightarrow> string list" where
  "parse_ingredients text =
     (case (case re_search_group cart_header (Plus NotNewline) text of
              Some g \<Rightarrow> Some g
            | None \<Rightarrow> re_search_group availability_header (Plus NotNewline) text) of
        Some ingredient_text \<Rightarrow>
          fold add_ingredient (map strip (split_on CHR '','' ingredient_text)) []
      | None \<Rightarrow>
          if CHR '','' \<in> set text
          then fold add_ingredient (map strip (split_on CHR '','' text)) []
          else [])"

section \<open>ingredientmatcheragent/agent\_server.py: the search and the batch\<close>

text \<open>
  A product of the catalogue as the gRPC response has it, with its price in units and
  nanos, and a product of the result dictionary. The products of the mock catalogue have no
  \<open>categories\<close> key.
\<close>

record catalog_product =
  cp_id :: string
  cp_name :: string
  cp_description :: string
  units :: int
  nanos :: int
  cp_categories :: "string list"

record product =
  product_id :: string
  product_name :: string
  product_description :: string
  price :: string
  categories :: "string list option"

text \<open>\<open>f"{n:02d}"\<close>: at least two characters, the sign counted, zeros after the sign.\<close>

definition format_02d :: "int \<Rightarrow> string" where
  "format_02d n =
     (if n < 0 then CHR ''-'' # str_nat (nat (- n))
      else if n < 10 then CHR ''0'' # str_nat (nat n) else str_nat (nat n))"

definition to_product :: "catalog_product \<Rightarrow> product" where
  "to_product p =
     \<lparr>product_id = cp_id p, product_name = cp_name p, product_description = cp_description p,
      price = ''$'' @ str_int (units p) @ ''.'' @ format_02d (nanos p div 10000000),
      categories = Some (cp_categories p)\<rparr>"

definition mock_product :: "string \<Rightarrow> string \<Rightarrow> string \<Rightarrow> string \<Rightarrow> product" where
  "mock_product i n d p =
     \<lparr>product_id = i, product_name = n, product_description = d, price = p, categories = None\<rparr>"

definition mock_products :: "(string \<times> product list) list" where
  "mock_products =
     [(''Chicken Breast'', [mock_product ''CHICKEN001'' ''Chicken Breast''
         ''Fresh boneless, skinless chicken breast'' ''$8.99'']),
      (''Ground Beef'', [mock_product ''BEEF001'' ''Ground Beef''
         ''Fresh lean ground beef, 80/20 blend'' ''$6.99'']),
      (''Garlic'', [mock_product ''GARLIC001'' ''Garlic'' ''Fresh garlic bulbs'' ''$1.49'']),
      (''Bell Peppers'', [mock_product ''BELLPEPPER001'' ''Bell Peppers''
         ''Fresh colorful bell peppers'' ''$2.49'']),
      (''Yellow Onion'', [mock_product ''ONION001'' ''Yellow Onion'' ''Fresh yellow onions'' ''$1.99'']),
      (''Roma Tomatoes'', [mock_product ''TOMATO001'' ''Roma Tomatoes'' ''Fresh Roma tomatoes'' ''$3.49'']),
      (''Salmon Fillets'', [mock_product ''SALMON001'' ''Salmon Fillets''
         ''Fresh Atlantic salmon fillets'' ''$14.99'']),
      (''Mixed Greens'', [mock_product ''MIXEDGREENS001'' ''Mixed Greens''
         ''Fresh mixed salad greens'' ''$4.49'']),
      (''Avocado'', [mock_product ''AVOCADO001'' ''Avocado'' ''Fresh ripe avocados'' ''$3.99''])]"

definition mock_search_products :: "string \<Rightarrow> product list" where
  "mock_search_products ingredient =
     (case map_of mock_products ingredient of
        Some ps \<Rightarrow> ps
      | None \<Rightarrow>
          (case find (\<lambda>(key, ps). contains (py_lower key) (py_lower ingredient)
                                   \<or> contains (py_lower ingredient) (py_lower key)) mock_products of
             Some (key, ps) \<Rightarrow> ps
           | None \<Rightarrow> []))"

text \<open>
  \<open>_search_products\<close>. The parameter \<open>search\<close> is the call \<open>stub.SearchProducts\<close> of the
  product catalogue for a query: its results, or \<open>None\<close> when the call raises. The handler of
  the \<open>try\<close> answers from the mock catalogue.
\<close>

definition search_products :: "(string \<Rightarrow> catalog_product list option) \<Rightarrow> string \<Rightarrow> product list" where
  "search_products search ingredient =
     (case search ingredient of
        Some results \<Rightarrow> map to_product results
      | None \<Rightarrow> mock_search_products ingredient)"

text \<open>
  The loop of \<open>match_ingredients_from_text\<close> over the ingredients: \<open>matched_products\<close> and
  \<open>unmatched_ingredients\<close> after it.
\<close>

fun match_loop ::
  "(string \<Rightarrow> catalog_product list option) \<Rightarrow> string list \<Rightarrow> product list \<times> string list
     \<Rightarrow> product list \<times> string list" where
  "match_loop search [] acc = acc"
| "match_loop search (ingredient # rest) (matched, unmatched) =
     (let ps = search_products search ingredient
      in if ps \<noteq> [] then match_loop search rest (matched @ ps, unmatched)
         else match_loop search rest (matched, unmatched @ [ingredient]))"

text \<open>
  The dictionary that \<open>match_ingredients_from_text\<close> serialises: the error for a text
  without ingredients, or the result of the batch.
\<close>

datatype match_response =
  NoIngredientsFound string
| MatchResult (result_matched: "string list") (result_unmatched: "string list")
    (result_product_ids: "string list") (result_products: "product list")
    (result_message: string)

definition match_ingredients :: "(string \<Rightarrow> catalog_product list option) \<Rightarrow> string list \<Rightarrow> match_response" where
  "match_ingredients search names =
     (case match_loop search names ([], []) of
        (matched, unmatched) \<Rightarrow>
          MatchResult [ingredient \<leftarrow> names. ingredient \<notin> set unmatched]
            unmatched
            (map product_id matched)
            matched
            (''Successfully matched '' @ str_nat (length names - length unmatched)
               @ '' of '' @ str_nat (length names) @ '' ingredients to ''
               @ str_nat (length matched) @ '' products''))"

text \<open>An example: the product catalogue cannot be reached, every search call raises.\<close>

definition catalogue_down :: "string \<Rightarrow> catalog_product list option" where
  "catalogue_down query = None"

definition match_ingredients_from_text ::
  "(string \<Rightarrow> catalog_product list option) \<Rightarrow> string \<Rightarrow> match_response" where
  "match_ingredients_from_text search text =
     (let names = parse_ingredients text
      in if names = [] then NoIngredientsFound text
         else match_ingredients search names)"

section \<open>recipe\_generator.py: the quantity in \_format\_ingredients\<close>

text \<open>
  The part of the loop body of \<open>_format_ingredients\<close> that computes \<open>quantity\<close>. The
  pattern is
  \<^verbatim>\<open>^((?:\d+\s+)?\d+(?:\.\d+)?(?:/\d+)?)\s+(...)\s+(.+)$\<close>
  with the alternation \<open>known_units\<close> as its second group:
  \<^verbatim>\<open>cups?|cup|tablespoons?|tablespoon|tbsp|teaspoons?|teaspoon|tsp|pounds?|pound|lbs?|lb|ounces?|ounce|oz|pieces?|piece|cloves?|clove|slices?|slice|cans?|can|packages?|package|pkg\<close>
\<close>

definition known_units :: rx where
  "known_units = alts
     [Seq (Lit ''cup'') (Opt (Lit ''s'')), Lit ''cup'', Seq (Lit ''tablespoon'') (Opt (Lit ''s'')),
      Lit ''tablespoon'', Lit ''tbsp'', Seq (Lit ''teaspoon'') (Opt (Lit ''s'')), Lit ''teaspoon'',
      Lit ''tsp'', Seq (Lit ''pound'') (Opt (Lit ''s'')), Lit ''pound'',
      Seq (Lit ''lb'') (Opt (Lit ''s'')), Lit ''lb'', Seq (Lit ''ounce'') (Opt (Lit ''s'')),
      Lit ''ounce'', Lit ''oz'', Seq (Lit ''piece'') (Opt (Lit ''s'')), Lit ''piece'',
      Seq (Lit ''clove'') (Opt (Lit ''s'')), Lit ''clove'', Seq (Lit ''slice'') (Opt (Lit ''s'')),
      Lit ''slice'', Seq (Lit ''can'') (Opt (Lit ''s'')), Lit ''can'',
      Seq (Lit ''package'') (Opt (Lit ''s'')), Lit ''package'', Lit ''pkg'']"

definition quantity_group :: rx where
  "quantity_group = seqs
     [Opt (Seq (Plus Digit) (Plus Space)), Plus Digit, Opt (Seq (Lit ''.'') (Plus Digit)),
      Opt (Seq (Lit ''/'') (Plus Digit))]"

text \<open>The text between two positions of a match.\<close>

definition between :: "rx_state \<Rightarrow> rx_state \<Rightarrow> string" where
  "between st st' = take (length (snd st) - length (snd st')) (snd st)"

text \<open>
  \<open>re.match(pattern, ingredient, re.IGNORECASE).groups()\<close>: the three groups of the first
  match in the order of the engine, or \<open>None\<close>.
\<close>

definition match_ingredient :: "string \<Rightarrow> (string \<times> string \<times> string) option" where
  "match_ingredient ingredient =
     (let st0 = (None, ingredient)
      in case concat (map (\<lambda>st1.
              concat (map (\<lambda>st2.
                concat (map (\<lambda>st3.
                  concat (map (\<lambda>st4.
                    map (\<lambda>st5. (between st0 st1, between st2 st3, between st4 st5))
                        (rx_match (Seq (Plus NotNewline) Eos) st4))
                    (rx_match (Plus Space) st3)))
                  (rx_match known_units st2)))
                (rx_match (Plus Space) st1)))
              (rx_match (Seq Bos quantity_group) st0)) of
           [] \<Rightarrow> None
         | groups # _ \<Rightarrow> Some groups)"

text \<open>
  \<open>float(s)\<close> for a text of digits, dots and white space, the only characters of the first
  group: \<open>None\<close> stands for \<open>ValueError\<close>. The value is the decimal number itself.
\<close>

definition digits_value :: "string \<Rightarrow> nat" where
  "digits_value ds = fold (\<lambda>d n. 10 * n + (of_char d - of_char CHR ''0'')) ds 0"

definition py_float :: "string \<Rightarrow> rat option" where
  "py_float s =
     (let t = strip s; i = takeWhile is_digit t; r = dropWhile is_digit t
      in if r = [] then (if i = [] then None else Some (of_nat (digits_value i)))
         else if hd r = CHR ''.'' \<and> list_all is_digit (tl r) \<and> (i \<noteq> [] \<or> tl r \<noteq> [])
         then Some (of_nat (digits_value i) + of_nat (digits_value (tl r)) / 10 ^ length (tl r))
         else None)"

text \<open>The division of two floats; \<open>None\<close> also stands for \<open>ZeroDivisionError\<close>.\<close>

definition py_divide :: "rat option \<Rightarrow> rat option \<Rightarrow> rat option" where
  "py_divide a b =
     (case (a, b) of
        (Some x, Some y) \<Rightarrow> if y = 0 then None else Some (x / y)
      | _ \<Rightarrow> None)"

text \<open>
  The \<open>try\<close> block that parses \<open>quantity_str\<close>; its handler for \<open>ValueError\<close> and
  \<open>ZeroDivisionError\<close> sets the quantity to 1.0.
\<close>

definition parse_quantity :: "string \<Rightarrow> rat" where
  "parse_quantity quantity_str =
     (let q = strip quantity_str;
          tried =
            (if CHR ''/'' \<in> set q
             then (let parts = split_ws q
                   in if length parts = 2
                      then (let whole = py_float (parts ! 0);
                                fraction_parts = split_on CHR ''/'' (parts ! 1)
                            in if length fraction_parts = 2
                               then (case (whole, py_divide (py_float (fraction_parts ! 0))
                                                            (py_float (fraction_parts ! 1))) of
                                       (Some w, Some f) \<Rightarrow> Some (w + f)
                                     | _ \<Rightarrow> None)
                               else whole)
                      else (let fraction_parts = split_on CHR ''/'' q
                            in if length fraction_parts = 2
                               then (if strip (fraction_parts ! 0) \<noteq> [] \<and> strip (fraction_parts ! 1) \<noteq> []
                                     then py_divide (py_float (fraction_parts ! 0))
                                                    (py_float (fraction_parts ! 1))
                                     else Some 1)
                               else Some 1))
             else py_float q)
      in case tried of Some v \<Rightarrow> v | None \<Rightarrow> 1)"

text \<open>The value of \<open>quantity\<close> for one ingredient text; it is 1.0 when the pattern does not match.\<close>

definition ingredient_quantity :: "string \<Rightarrow> rat" where
  "ingredient_quantity ingredient =
     (case match_ingredient (strip ingredient) of
        None \<Rightarrow> 1
      | Some (quantity_str, unit_str, ingredient_name) \<Rightarrow>
          if quantity_str \<noteq> [] then parse_quantity quantity_str else 1)"

section \<open>Character classes on the bits of a character\<close>

text \<open>
  Equations for the character classes in terms of the eight bits of a character (the least
  significant first). They are the code equations, so that the evaluation of a string
  function does no arithmetic.
\<close>

lemma is_upper_code [code]:
  "is_upper (Char b0 b1 b2 b3 b4 b5 b6 b7) \<longleftrightarrow>
     \<not> b7 \<and> b6 \<and> \<not> b5 \<and> (b0 \<or> b1 \<or> b2 \<or> b3 \<or> b4) \<and> \<not> (b4 \<and> b3 \<and> (b2 \<or> b1 \<and> b0))"
  by (cases b0; cases b1; cases b2; cases b3; cases b4; cases b5; cases b6; cases b7)
     (simp_all add: is_upper_def less_eq_char_def)

lemma is_lower_code [code]:
  "is_lower (Char b0 b1 b2 b3 b4 b5 b6 b7) \<longleftrightarrow>
     \<not> b7 \<and> b6 \<and> b5 \<and> (b0 \<or> b1 \<or> b2 \<or> b3 \<or> b4) \<and> \<not> (b4 \<and> b3 \<and> (b2 \<or> b1 \<and> b0))"
  by (cases b0; cases b1; cases b2; cases b3; cases b4; cases b5; cases b6; cases b7)
     (simp_all add: is_lower_def less_eq_char_def)

lemma is_digit_code [code]:
  "is_digit (Char b0 b1 b2 b3 b4 b5 b6 b7) \<longleftrightarrow>
     \<not> b7 \<and> \<not> b6 \<and> b5 \<and> b4 \<and> \<not> (b3 \<and> (b2 \<or> b1))"
  by (cases b0; cases b1; cases b2; cases b3; cases b4; cases b5; cases b6; cases b7)
     (simp_all add: is_digit_def less_eq_char_def)

lemma is_space_code [code]:
  "is_space (Char b0 b1 b2 b3 b4 b5 b6 b7) \<longleftrightarrow>
     \<not> b7 \<and> \<not> b6 \<and>
     (b5 \<and> \<not> b4 \<and> \<not> b3 \<and> \<not> b2 \<and> \<not> b1 \<and> \<not> b0
      \<or> \<not> b5 \<and> \<not> b4 \<and> b3 \<and> \<not> (b2 \<and> b1) \<and> (b2 \<or> b1 \<or> b0)
      \<or> \<not> b5 \<and> b4 \<and> b3 \<and> b2)"
  by (cases b0; cases b1; cases b2; cases b3; cases b4; cases b5; cases b6; cases b7)
     (simp_all add: is_space_def)

lemma to_lower_code [code]:
  "to_lower (Char b0 b1 b2 b3 b4 b5 b6 b7) =
     (if is_upper (Char b0 b1 b2 b3 b4 b5 b6 b7) then Char b0 b1 b2 b3 b4 True b6 b7
      else Char b0 b1 b2 b3 b4 b5 b6 b7)"
  by (cases b0; cases b1; cases b2; cases b3; cases b4; cases b5; cases b6; cases b7)
     (simp_all add: to_lower_def is_upper_code char_of_def bit_Suc_0_iff)

lemma to_upper_code [code]:
  "to_upper (Char b0 b1 b2 b3 b4 b5 b6 b7) =
     (if is_lower (Char b0 b1 b2 b3 b4 b5 b6 b7) then Char b0 b1 b2 b3 b4 False b6 b7
      else Char b0 b1 b2 b3 b4 b5 b6 b7)"
  by (cases b0; cases b1; cases b2; cases b3; cases b4; cases b5; cases b6; cases b7)
     (simp_all add: to_upper_def is_lower_code char_of_def bit_Suc_0_iff)

section \<open>Scaling\<close>

lemma str_nat_3: "str_nat 3 = ''3''"
  by (simp add: str_nat.simps digit_char_def)

lemma py_int_3: "py_int 3 = 3"
  by (simp add: py_int_def)

text \<open>
  C8 (as the code has it). An ingredient of quantity 1.5 and unit cups, scaled from a default
  of 4 servings to 8, has the scaled quantity 3.0, which is integral, so the branch
  \<open>scaled_quantity == int(scaled_quantity)\<close> renders it as the integer:
  the text is "3 cups Jasmine Rice" (and "3 cups" followed by the name for any name).
\<close>

theorem scale_jasmine_rice_renders_integer:
  "scale_ingredients
     \<lparr>recipe_id = rid, title = t, description = d, default_servings = 4, cook_time = c,
      ingredients = [\<lparr>name = n, quantity = 3 / 2, unit = ''cups''\<rparr>], instructions = ins\<rparr> 8
   = Inr [''3 cups '' @ n]"
  by (simp add: scale_ingredients_def scaled_text_def py_int_3 str_int_def str_nat_3)

text \<open>
  C8 (as stated) fails: the rendered text is not "3.0 cups Jasmine Rice".
\<close>

theorem scale_jasmine_rice_counterexample:
  "scale_ingredients
     \<lparr>recipe_id = ''r1'', title = ''Rice'', description = '''', default_servings = 4,
      cook_time = '''',
      ingredients = [\<lparr>name = ''Jasmine Rice'', quantity = 3 / 2, unit = ''cups''\<rparr>],
      instructions = []\<rparr> 8
   \<noteq> Inr [''3.0 cups Jasmine Rice'']"
  by (simp add: scale_ingredients_def scaled_text_def py_int_3 str_int_def str_nat_3)



section \<open>The recipe cache and the suggestions\<close>

lemma sort_mset_cong: "mset xs = mset ys \<Longrightarrow> sort xs = sort (ys :: 'a::linorder list)"
  by (rule properties_for_sort) simp_all

text \<open>
  C5. Two cart-item lists with the same multiset of items, and the same session id, have the
  same cache key, whatever the hash function is.
\<close>

theorem cache_key_permutation_invariant:
  "mset xs = mset ys \<Longrightarrow>
   generate_cache_key md5 xs session_id = generate_cache_key md5 ys session_id"
  by (simp add: generate_cache_key_def sort_mset_cong [of xs ys])

lemma key_garlic_lemon:
  "generate_cache_key (\<lambda>s. s) [''Garlic'', ''Lemon''] ''s1'' = ''Garlic,Lemon:s1''"
  by code_simp

theorem cache_key_permutation_witness:
  "mset [''Lemon'', ''Garlic''] = mset [''Garlic'', ''Lemon''] \<and>
   generate_cache_key (\<lambda>s. s) [''Lemon'', ''Garlic''] ''s1'' = ''Garlic,Lemon:s1'' \<and>
   generate_cache_key (\<lambda>s. s) [''Garlic'', ''Lemon''] ''s1'' = ''Garlic,Lemon:s1''"
proof -
  have m: "mset [''Lemon'', ''Garlic''] = mset [''Garlic'', ''Lemon'']" by simp
  show ?thesis
    using m key_garlic_lemon cache_key_permutation_invariant [OF m, of "\<lambda>s. s" "''s1''"] by simp
qed

lemma length_get_fallback_recipes: "length (get_fallback_recipes c) = 3"
  by (simp add: get_fallback_recipes_def Let_def)

lemma length_format_all: "length (format_all env c i ds) \<le> length ds"
  by (induction ds arbitrary: i) (auto split: option.splits intro: le_SucI)

lemma length_first_three: "first_three j = Inr ds \<Longrightarrow> length ds \<le> 3"
  by (cases j) auto

lemma length_run_adk_agent: "run_adk_agent env final c = Inr rs \<Longrightarrow> length rs \<le> 3"
  unfolding run_adk_agent_def
  by (auto split: option.splits if_splits sum.splits dest!: length_first_three
      intro: order_trans [OF length_format_all])

lemma length_generate_with_adk: "generate_with_adk env g c = Inr rs \<Longrightarrow> length rs \<le> 3"
  unfolding generate_with_adk_def
  by (auto split: if_splits adk_outcome.splits simp: length_get_fallback_recipes
      dest: length_run_adk_agent)

lemma clean_brackets: "clean_response ''[]'' = ''[]''"
  by code_simp

lemma strip_brackets: "strip ''[]'' = ''[]''"
  by code_simp

text \<open>
  C4 (as stated) fails: when the agent's final response is the empty JSON array, the loop over
  \<open>recipes_data[:3]\<close> formats nothing and the call returns no suggestion at all.
\<close>

theorem suggestions_can_be_empty:
  "\<not> (1 \<le> length (fst (generate_suggested_recipes empty_reply_env fresh_generator
                          [''Garlic'', ''Lemon''] ''s1''))
      \<and> length (fst (generate_suggested_recipes empty_reply_env fresh_generator
                          [''Garlic'', ''Lemon''] ''s1'')) \<le> 3)"
  by (simp add: generate_suggested_recipes_def empty_reply_env_def fresh_generator_def
      generate_with_adk_def run_adk_agent_def clean_brackets strip_brackets Let_def)

text \<open>
  C4 (as the code has it). When every cached recipe set has at most three recipes, a call
  returns at most three suggestions and leaves such a cache. It returns exactly the three
  static fallback recipes when the cart has fewer than two items, and on a cache miss when
  the agent is unavailable, times out or raises.
\<close>

theorem suggestions_at_most_three:
  assumes "\<forall>k rs. cache g k = Some rs \<longrightarrow> length rs \<le> 3"
  shows "length (fst (generate_suggested_recipes env g cart_items session_id)) \<le> 3
       \<and> (\<forall>k rs. cache (snd (generate_suggested_recipes env g cart_items session_id)) k = Some rs
             \<longrightarrow> length rs \<le> 3)
       \<and> (length cart_items < 2
            \<or> cache g (generate_cache_key (md5_hex env) cart_items session_id) = None
              \<and> (\<not> (adk_available g \<and> has_recipe_agent g)
                   \<or> run_agent env cart_items = AdkTimeout
                   \<or> run_agent env cart_items = AdkRaise) \<longrightarrow>
            fst (generate_suggested_recipes env g cart_items session_id)
              = get_fallback_recipes cart_items
            \<and> length (fst (generate_suggested_recipes env g cart_items session_id)) = 3)"
proof (intro conjI)
  show "length (fst (generate_suggested_recipes env g cart_items session_id)) \<le> 3"
    using assms unfolding generate_suggested_recipes_def Let_def
    by (auto split: option.splits sum.splits simp: length_get_fallback_recipes
        dest: length_generate_with_adk)
  show "\<forall>k rs. cache (snd (generate_suggested_recipes env g cart_items session_id)) k = Some rs
             \<longrightarrow> length rs \<le> 3"
    using assms unfolding generate_suggested_recipes_def Let_def
    by (auto split: option.splits sum.splits if_splits simp: length_get_fallback_recipes
        dest: length_generate_with_adk)
  show "length cart_items < 2
            \<or> cache g (generate_cache_key (md5_hex env) cart_items session_id) = None
              \<and> (\<not> (adk_available g \<and> has_recipe_agent g)
                   \<or> run_agent env cart_items = AdkTimeout
                   \<or> run_agent env cart_items = AdkRaise) \<longrightarrow>
            fst (generate_suggested_recipes env g cart_items session_id)
              = get_fallback_recipes cart_items
            \<and> length (fst (generate_suggested_recipes env g cart_items session_id)) = 3"
    unfolding generate_suggested_recipes_def Let_def generate_with_adk_def
    by (auto split: option.splits sum.splits simp: length_get_fallback_recipes)
qed

theorem suggestions_at_most_three_witness:
  "length (fst (generate_suggested_recipes four_drafts_env fresh_generator
                    [''Garlic'', ''Lemon''] ''s1'')) \<le> 3
   \<and> length (fst (generate_suggested_recipes four_drafts_env fresh_generator [''Garlic''] ''s1'')) = 3"
proof -
  have h: "\<forall>k rs. cache fresh_generator k = Some rs \<longrightarrow> length rs \<le> 3"
    by (simp add: fresh_generator_def)
  show ?thesis
    using suggestions_at_most_three [OF h, of four_drafts_env "[''Garlic'', ''Lemon'']" "''s1''"]
      suggestions_at_most_three [OF h, of four_drafts_env "[''Garlic'']" "''s1''"]
    by (simp add: length_get_fallback_recipes)
qed

text \<open>
  C3 (what the code does on a cache hit). The cached recipes are returned, the agent is not run
  and the cache is unchanged; a thread is started with the two arguments
  \<open>(recipes, session_id)\<close>. \<open>generate_images_for_recipes\<close> has three required parameters, so
  the thread raises \<open>TypeError\<close> before any image is generated and the cache entry is never
  replaced.
\<close>

theorem cache_hit_thread_misses_argument:
  assumes "2 \<le> length cart_items"
    and "cache g (generate_cache_key (md5_hex env) cart_items session_id) = Some recipes"
  shows "generate_suggested_recipes env g cart_items session_id
           = (recipes, g\<lparr>threads := threads g @ [Args2 recipes session_id]\<rparr>)
       \<and> agent_calls (snd (generate_suggested_recipes env g cart_items session_id)) = agent_calls g
       \<and> cache (snd (generate_suggested_recipes env g cart_items session_id)) = cache g
       \<and> run_thread env (snd (generate_suggested_recipes env g cart_items session_id))
            (last (threads (snd (generate_suggested_recipes env g cart_items session_id))))
           = Inl TypeError"
  using assms by (simp add: generate_suggested_recipes_def Let_def)

theorem cache_hit_thread_misses_argument_witness:
  "2 \<le> length [''Garlic'', ''Lemon'']
   \<and> cache warm_generator (generate_cache_key (md5_hex empty_reply_env) [''Garlic'', ''Lemon''] ''s1'')
       = Some (get_fallback_recipes [''Garlic'', ''Lemon''])
   \<and> fst (generate_suggested_recipes empty_reply_env warm_generator [''Garlic'', ''Lemon''] ''s1'')
       = get_fallback_recipes [''Garlic'', ''Lemon'']
   \<and> run_thread empty_reply_env
         (snd (generate_suggested_recipes empty_reply_env warm_generator [''Garlic'', ''Lemon''] ''s1''))
         (Args2 (get_fallback_recipes [''Garlic'', ''Lemon'']) ''s1'')
       = Inl TypeError"
proof -
  have l: "2 \<le> length [''Garlic'', ''Lemon'']" by simp
  have h: "cache warm_generator
             (generate_cache_key (md5_hex empty_reply_env) [''Garlic'', ''Lemon''] ''s1'')
           = Some (get_fallback_recipes [''Garlic'', ''Lemon''])"
    by (simp add: warm_generator_def empty_reply_env_def key_garlic_lemon)
  show ?thesis
    using l h cache_hit_thread_misses_argument [OF l h] by simp
qed

section \<open>The orchestration\<close>

lemma fallback_fields:
  "status (fallback_result t) = ''success''"
  "extracted_ingredients (fallback_result t) = extract_ingredients t"
  "matched_products (fallback_result t) = None"
  "product_details (fallback_result t) = None"
  "matched_ingredients (fallback_result t) = None"
  "unmatched_ingredients (fallback_result t) = None"
  by (simp_all add: fallback_result_def Let_def)

text \<open>
  C1 (as the code has it). When the call of the ingredient matcher fails, the handler of the
  outer \<open>try\<close> returns the fallback result: its status is \<open>success\<close>, it holds the raw
  ingredient list (the pieces of the text between commas, stripped) and no product data.
\<close>

theorem matcher_failure_returns_fallback:
  assumes "call_a2a_agent env ''http://ingredientmatcheragent:8080''
             (''Match these ingredients to product IDs: ''
                @ join '', '' (extract_ingredients recipe_text)) = A2AError e"
  shows "process_recipe env recipe_text user_id = fallback_result recipe_text
       \<and> status (process_recipe env recipe_text user_id) = ''success''
       \<and> extracted_ingredients (process_recipe env recipe_text user_id)
           = extract_ingredients recipe_text
       \<and> matched_products (process_recipe env recipe_text user_id) = None
       \<and> product_details (process_recipe env recipe_text user_id) = None
       \<and> matched_ingredients (process_recipe env recipe_text user_id) = None
       \<and> unmatched_ingredients (process_recipe env recipe_text user_id) = None"
proof -
  have "process_recipe_body env recipe_text user_id
          = Inl (Exception (''Ingredient matching failed: '' @ e))"
    using assms by (simp add: process_recipe_body_def Let_def)
  then have "process_recipe env recipe_text user_id = fallback_result recipe_text"
    by (simp add: process_recipe_def)
  then show ?thesis by (simp add: fallback_fields)
qed

lemma extract_garlic_lemon: "extract_ingredients ''garlic, lemon'' = [''garlic'', ''lemon'']"
  by code_simp

text \<open>
  C1 (as stated) fails: with the matcher down the status of the result is not \<open>degraded\<close>.
\<close>

theorem matcher_failure_status_not_degraded: "status (process_recipe matcher_down_env ''garlic, lemon'' ''u1'') \<noteq> ''degraded''"
  by (simp add: process_recipe_def process_recipe_body_def matcher_down_env_def Let_def
      fallback_fields)

theorem matcher_failure_returns_fallback_witness:
  "process_recipe matcher_down_env ''garlic, lemon'' ''u1''
     = \<lparr>status = ''success'',
        message = ''Recipe processed successfully (fallback). Extracted 2 ingredients: garlic, lemon'',
        extracted_ingredients = [''garlic'', ''lemon''],
        matched_products = None, product_details = None,
        matched_ingredients = None, unmatched_ingredients = None\<rparr>"
proof -
  have h: "call_a2a_agent matcher_down_env ''http://ingredientmatcheragent:8080''
             (''Match these ingredients to product IDs: ''
                @ join '', '' (extract_ingredients ''garlic, lemon''))
           = A2AError ''All connection attempts failed''"
    by (simp add: matcher_down_env_def)
  have s: "str_nat (Suc (Suc 0)) = ''2''" by (simp add: str_nat.simps digit_char_def)
  show ?thesis
    using matcher_failure_returns_fallback [OF h, of "''u1''"]
    by (simp add: fallback_result_def extract_garlic_lemon s)
qed

lemma cart_step_fails:
  assumes "\<not> startswith (py_lower recipe_text) ''check ingredient availability''"
    and "\<forall>m. \<exists>e. call_a2a_agent env ''http://cartadderagent:8080'' m = A2AError e"
  shows "\<exists>e. cart_step env recipe_text user_id ids = Inl e"
proof (cases "py_join '', '' ids")
  case (Inl e)
  then show ?thesis using assms(1) by (simp add: cart_step_def)
next
  case (Inr s)
  from assms(2) obtain e where
    "call_a2a_agent env ''http://cartadderagent:8080''
       (''Add these products to cart for user '' @ user_id @ '': '' @ s) = A2AError e"
    by blast
  with Inr assms(1) show ?thesis by (simp add: cart_step_def)
qed

lemma cart_failure_falls_back:
  assumes "\<not> startswith (py_lower recipe_text) ''check ingredient availability''"
    and "\<forall>m. \<exists>e. call_a2a_agent env ''http://cartadderagent:8080'' m = A2AError e"
  shows "process_recipe env recipe_text user_id = fallback_result recipe_text"
proof -
  have "\<exists>e. process_recipe_body env recipe_text user_id = Inl e"
  proof (cases "call_a2a_agent env ''http://ingredientmatcheragent:8080''
             (''Match these ingredients to product IDs: ''
                @ join '', '' (extract_ingredients recipe_text))")
    case (A2AError e)
    then show ?thesis by (simp add: process_recipe_body_def Let_def)
  next
    case (A2ASuccess response_text)
    show ?thesis
    proof (cases "read_match_response env response_text")
      case (Inl e)
      with A2ASuccess show ?thesis by (simp add: process_recipe_body_def Let_def)
    next
      case (Inr r)
      obtain mp pd mi ui md where r: "r = (mp, pd, mi, ui, md)"
        by (cases r) auto
      obtain e where "cart_step env recipe_text user_id mp = Inl e"
        using cart_step_fails [OF assms] by blast
      with A2ASuccess Inr r show ?thesis by (simp add: process_recipe_body_def Let_def)
    qed
  qed
  then show ?thesis
    by (auto simp add: process_recipe_def)
qed

text \<open>
  C2 (as the code has it). When the text is not an availability check and the call of the cart
  adder fails, the result is the same fallback result as for a failure of the matcher: its
  status is \<open>success\<close> and the product data read from the matcher is not in it.
\<close>

theorem cart_failure_returns_fallback:
  assumes "\<not> startswith (py_lower recipe_text) ''check ingredient availability''"
    and "\<forall>m. \<exists>e. call_a2a_agent env ''http://cartadderagent:8080'' m = A2AError e"
  shows "process_recipe env recipe_text user_id = fallback_result recipe_text
       \<and> status (process_recipe env recipe_text user_id) = ''success''
       \<and> extracted_ingredients (process_recipe env recipe_text user_id)
           = extract_ingredients recipe_text
       \<and> matched_products (process_recipe env recipe_text user_id) = None
       \<and> product_details (process_recipe env recipe_text user_id) = None
       \<and> matched_ingredients (process_recipe env recipe_text user_id) = None
       \<and> unmatched_ingredients (process_recipe env recipe_text user_id) = None"
  by (simp add: cart_failure_falls_back [OF assms] fallback_fields)

lemma cart_down_match:
  \<open>read_match_response cart_down_env
      ''{"product_ids": ["GARLIC001"], "matched_ingredients": ["Garlic"]}''
   = Inr (JArr [JStr ''GARLIC001''], JArr [], JArr [JStr ''Garlic''], JArr [], [])\<close>
  by (simp add: read_match_response_def cart_down_env_def dict_get_def Let_def)

lemma garlic_lemon_not_check: "\<not> startswith (py_lower ''garlic, lemon'') ''check ingredient availability''"
  by code_simp

theorem cart_failure_returns_fallback_witness: 
  \<open>read_match_response cart_down_env
      ''{"product_ids": ["GARLIC001"], "matched_ingredients": ["Garlic"]}''
   = Inr (JArr [JStr ''GARLIC001''], JArr [], JArr [JStr ''Garlic''], JArr [], [])
  \<and> process_recipe cart_down_env ''garlic, lemon'' ''u1''
     = \<lparr>status = ''success'',
        message = ''Recipe processed successfully (fallback). Extracted 2 ingredients: garlic, lemon'',
        extracted_ingredients = [''garlic'', ''lemon''],
        matched_products = None, product_details = None,
        matched_ingredients = None, unmatched_ingredients = None\<rparr>\<close>
proof -
  have h: "\<forall>m. \<exists>e. call_a2a_agent cart_down_env ''http://cartadderagent:8080'' m = A2AError e"
    by (simp add: cart_down_env_def)
  have s: "str_nat (Suc (Suc 0)) = ''2''" by (simp add: str_nat.simps digit_char_def)
  show ?thesis
    using cart_failure_returns_fallback [OF garlic_lemon_not_check h, of "''u1''"]
    by (simp add: fallback_result_def extract_garlic_lemon s cart_down_match)
qed

lemma cart_down_env_cart_fails: "\<forall>m. \<exists>e. call_a2a_agent cart_down_env ''http://cartadderagent:8080'' m = A2AError e"
    by (simp add: cart_down_env_def)

text \<open>
  C2 (as stated) fails: the matcher has answered with a product, the cart adder is down, and
  the status of the result is not \<open>failed\<close>.
\<close>

theorem cart_failure_status_not_failed: "status (process_recipe cart_down_env ''garlic, lemon'' ''u1'') \<noteq> ''failed''"
  by (simp add: cart_failure_falls_back [OF garlic_lemon_not_check cart_down_env_cart_fails] fallback_fields)

section \<open>The batch of the ingredient matcher\<close>

lemma match_loop_eq:
  "match_loop search names (m, u)
     = (m @ concat (map (search_products search) names),
        u @ [n \<leftarrow> names. search_products search n = []])"
  by (induction names arbitrary: m u) (auto simp: Let_def)

text \<open>
  C6 (as the code has it). In a batch, a name whose search returns no results, or whose search
  raises while the mock catalogue has nothing for it, is placed in \<open>unmatched\<close>, is not among
  the matched names and contributes no product. The batch is never aborted: its products are
  those of all the names in order, and its unmatched names are exactly the names without a
  product. (A search that raises is answered from the mock catalogue.)
\<close>

theorem empty_search_goes_to_unmatched:
  assumes "n \<in> set names"
    and "search n = Some [] \<or> (search n = None \<and> mock_search_products n = [])"
  shows "n \<in> set (result_unmatched (match_ingredients search names))
       \<and> n \<notin> set (result_matched (match_ingredients search names))
       \<and> search_products search n = []
       \<and> result_products (match_ingredients search names)
           = concat (map (search_products search) names)
       \<and> result_unmatched (match_ingredients search names)
           = [m \<leftarrow> names. search_products search m = []]"
proof -
  have "search_products search n = []"
    using assms(2) by (auto simp: search_products_def)
  then show ?thesis
    using assms(1) by (simp add: match_ingredients_def match_loop_eq)
qed

lemma mock_garlic: "mock_search_products ''Garlic''
   = [mock_product ''GARLIC001'' ''Garlic'' ''Fresh garlic bulbs'' ''$1.49'']"
  by (simp add: mock_search_products_def mock_products_def)

lemma mock_lemon: "mock_search_products ''Lemon'' = []"
  by code_simp

text \<open>
  C6 (as stated) fails: the search call for "Garlic" raises, and the name is not placed in
  \<open>unmatched\<close>: the handler answers from the mock catalogue, which has a product for it.
\<close>

theorem failed_search_can_match:
  "catalogue_down ''Garlic'' = None
   \<and> ''Garlic'' \<notin> set (result_unmatched (match_ingredients catalogue_down [''Garlic'', ''Lemon'']))
   \<and> result_product_ids (match_ingredients catalogue_down [''Garlic'', ''Lemon'']) = [''GARLIC001'']"
  by (simp add: match_ingredients_def match_loop_eq search_products_def mock_garlic mock_lemon
      mock_product_def catalogue_down_def)

theorem empty_search_goes_to_unmatched_witness:
  "result_unmatched (match_ingredients (\<lambda>q. if q = ''Garlic'' then None else Some [])
       [''Garlic'', ''Lemon'']) = [''Lemon'']
   \<and> result_product_ids (match_ingredients (\<lambda>q. if q = ''Garlic'' then None else Some [])
       [''Garlic'', ''Lemon'']) = [''GARLIC001'']"
proof -
  let ?search = "\<lambda>q. if q = ''Garlic'' then None else (Some [] :: catalog_product list option)"
  have m: "''Lemon'' \<in> set [''Garlic'', ''Lemon'']" by simp
  have h: "?search ''Lemon'' = Some [] \<or> (?search ''Lemon'' = None \<and> mock_search_products ''Lemon'' = [])"
    by simp
  show ?thesis
    using empty_search_goes_to_unmatched [of "''Lemon''" "[''Garlic'', ''Lemon'']" ?search, OF m h]
    by (simp add: match_ingredients_def match_loop_eq search_products_def mock_garlic mock_product_def)
qed

section \<open>The ingredient extractor\<close>



























section \<open>The quantity prefix of the extractor\<close>

lemma quantity_prefix_unfold:
  "quantity_prefix =
     Seq Bos (Seq (Plus Digit) (Seq (Opt (Seq (Lit ''.'') (Plus Digit)))
       (Seq (Plus Space) (Seq unit_words (Plus Space)))))"
  by (simp add: quantity_prefix_def)

lemma sub_from_Bos: "sub_from (Seq Bos r) (Some p) s = s"
  by (induction s arbitrary: p) (simp_all add: first_nonempty_def)

lemma strip_no_match:
  assumes "rx_match quantity_prefix (None, s) = []"
  shows "strip_quantity_prefix s = s"
proof (cases s)
  case (Cons c cs)
  have "sub_from quantity_prefix (Some c) cs = cs"
    unfolding quantity_prefix_unfold by (rule sub_from_Bos)
  with assms Cons show ?thesis
    by (simp add: strip_quantity_prefix_def re_sub_empty_def first_nonempty_def)
qed (simp add: strip_quantity_prefix_def re_sub_empty_def)

lemma strip_match:
  assumes "rx_match quantity_prefix (None, s) = (Some p, rest) # xs"
    and "length rest < length s"
  shows "strip_quantity_prefix s = rest"
proof (cases s)
  case (Cons c cs)
  have "sub_from quantity_prefix (Some p) rest = rest"
    unfolding quantity_prefix_unfold by (rule sub_from_Bos)
  with assms Cons show ?thesis
    by (simp add: strip_quantity_prefix_def re_sub_empty_def first_nonempty_def)
qed (use assms in simp)

lemma greedy_stop: "t = [] \<or> \<not> in_class k (hd t) \<Longrightarrow> greedy k (p, t) = [(p, t)]"
  by (cases t) auto

lemma greedy_run:
  assumes "\<forall>c \<in> set ds. in_class k c" and "t = [] \<or> \<not> in_class k (hd t)" and "ds \<noteq> []"
  shows "\<exists>xs. greedy k (p, ds @ t) = (Some (last ds), t) # xs \<and> xs \<noteq> []"
  using assms
proof (induction ds arbitrary: p)
  case (Cons c cs)
  show ?case
  proof (cases "cs = []")
    case True
    with Cons.prems show ?thesis by (simp add: greedy_stop)
  next
    case False
    with Cons obtain xs where "greedy k (Some c, cs @ t) = (Some (last cs), t) # xs"
      by (metis list.set_intros(2))
    with Cons.prems False show ?thesis by simp
  qed
qed simp

lemma plus_run:
  assumes "\<forall>c \<in> set ds. in_class k c" and "t = [] \<or> \<not> in_class k (hd t)" and "ds \<noteq> []"
  shows "\<exists>xs. rx_match (Plus k) (p, ds @ t) = (Some (last ds), t) # xs"
proof -
  obtain xs where "greedy k (p, ds @ t) = (Some (last ds), t) # xs" "xs \<noteq> []"
    using greedy_run [OF assms] by blast
  then show ?thesis by simp
qed

lemma greedy_states:
  "st' \<in> set (greedy k (p, s)) \<Longrightarrow> \<exists>pre. s = pre @ snd st' \<and> (\<forall>c \<in> set pre. in_class k c)"
proof (induction s arbitrary: p)
  case (Cons c cs)
  show ?case
  proof (cases "in_class k c \<and> st' \<in> set (greedy k (Some c, cs))")
    case True
    then obtain pre where "cs = pre @ snd st'" "\<forall>c \<in> set pre. in_class k c"
      using Cons.IH by blast
    with True show ?thesis by (intro exI [of _ "c # pre"]) simp
  next
    case False
    with Cons.prems have "st' = (p, c # cs)" by (auto split: if_splits)
    then show ?thesis by (intro exI [of _ "[]"]) simp
  qed
qed simp

lemma plus_states:
  "st' \<in> set (rx_match (Plus k) (p, s)) \<Longrightarrow> \<exists>pre. s = pre @ snd st' \<and> (\<forall>c \<in> set pre. in_class k c)"
  by (auto dest: in_set_butlastD greedy_states)

lemma run_then_other:
  assumes "pre @ r = ds @ x # rest" and "\<forall>c \<in> set pre. P c" and "\<not> P x"
  shows "\<exists>us. r = us @ x # rest \<and> set us \<subseteq> set ds"
proof -
  from assms(1) obtain us where
    "pre = ds @ us \<and> us @ r = x # rest \<or> pre @ us = ds \<and> r = us @ x # rest"
    by (auto simp: append_eq_append_conv2)
  then show ?thesis
  proof
    assume a: "pre = ds @ us \<and> us @ r = x # rest"
    then have "us = []" using assms(2,3) by (cases us) auto
    with a have "r = [] @ x # rest \<and> set [] \<subseteq> set ds" by simp
    then show ?thesis by blast
  next
    assume "pre @ us = ds \<and> r = us @ x # rest"
    then have "r = us @ x # rest \<and> set us \<subseteq> set ds" by auto
    then show ?thesis by blast
  qed
qed

lemma digit_facts: "is_digit c \<Longrightarrow> \<not> is_space c \<and> c \<noteq> CHR ''.'' \<and> \<not> is_upper c \<and> \<not> is_lower c"
  by (cases c) (auto simp: is_digit_code is_space_code is_upper_code is_lower_code)

lemma space_facts: "is_space c \<Longrightarrow> \<not> is_digit c \<and> c \<noteq> CHR ''.'' \<and> \<not> is_upper c \<and> \<not> is_lower c"
  by (cases c) (auto simp: is_digit_code is_space_code is_upper_code is_lower_code)

lemma to_lower_nonletter: "\<not> is_upper c \<Longrightarrow> to_lower c = c"
  by (simp add: to_lower_def)

lemma lit_first_fails:
  "\<not> is_upper c \<Longrightarrow> c \<noteq> to_lower x \<Longrightarrow> lit_match (x # xs) (p, c # t) = None"
  by (simp add: to_lower_nonletter)

lemma tail_fails:
  assumes "c \<noteq> CHR ''.''" and "\<not> is_space c" and "\<not> is_upper c"
  shows "rx_match (Seq (Opt (Seq (Lit ''.'') (Plus Digit))) (Seq (Plus Space) R)) (p, c # t) = []"
proof -
  have "to_lower CHR ''.'' = CHR ''.''" by (simp add: to_lower_code is_upper_code)
  then have "lit_match ''.'' (p, c # t) = None"
    using assms by (simp add: to_lower_nonletter)
  then show ?thesis using assms(2) by simp
qed

lemma slash_facts: "\<not> is_digit CHR ''/''" "\<not> is_space CHR ''/''" "\<not> is_upper CHR ''/''"
  by (simp_all add: is_digit_code is_space_code is_upper_code)

lemma unit_words_need_letter:
  assumes "\<not> is_upper c" and "\<not> is_lower c"
  shows "rx_match unit_words (p, c # t) = []"
proof -
  have "\<And>x xs. is_lower x \<Longrightarrow> lit_match (x # xs) (p, c # t) = None"
  proof -
    fix x xs assume "is_lower x"
    then have "to_lower x = x" by (cases x) (auto simp: to_lower_code is_upper_code is_lower_code)
    with \<open>is_lower x\<close> assms show "lit_match (x # xs) (p, c # t) = None"
      by (auto simp: to_lower_nonletter)
  qed
  then show ?thesis
    by (simp add: unit_words_def is_lower_code)
qed

lemma concat_map_nil: "(\<And>x. x \<in> set xs \<Longrightarrow> f x = []) \<Longrightarrow> concat (map f xs) = []"
  by (induction xs) auto

lemma seq_bos_start: "rx_match (Seq Bos r) (None, s) = rx_match r (None, s)"
  by simp

lemma quantity_prefix_match:
  "rx_match quantity_prefix (None, s) =
     concat (map (rx_match (Seq (Opt (Seq (Lit ''.'') (Plus Digit)))
                             (Seq (Plus Space) (Seq unit_words (Plus Space)))))
                 (rx_match (Plus Digit) (None, s)))"
  unfolding quantity_prefix_unfold seq_bos_start by (rule rx_match.simps(5))

lemma fraction_kept:
  assumes "\<forall>c \<in> set ds. is_digit c"
  shows "strip_quantity_prefix (ds @ CHR ''/'' # rest) = ds @ CHR ''/'' # rest"
proof (rule strip_no_match)
  let ?s = "ds @ CHR ''/'' # rest"
  let ?tail = "Seq (Opt (Seq (Lit ''.'') (Plus Digit))) (Seq (Plus Space) (Seq unit_words (Plus Space)))"
  have "rx_match ?tail st' = []" if h: "st' \<in> set (rx_match (Plus Digit) (None, ?s))" for st'
  proof -
    obtain pre where pre: "?s = pre @ snd st'" "\<forall>c \<in> set pre. in_class Digit c"
      using plus_states [OF h] by blast
    then obtain us where us: "snd st' = us @ CHR ''/'' # rest" "set us \<subseteq> set ds"
      using run_then_other [of pre "snd st'" ds "CHR ''/''" rest is_digit] slash_facts by auto
    then obtain c t where ct: "snd st' = c # t" "is_digit c \<or> c = CHR ''/''"
      using assms by (cases us) auto
    then have "c \<noteq> CHR ''.''" "\<not> is_space c" "\<not> is_upper c"
      using digit_facts [of c] slash_facts by auto
    then show ?thesis
      using tail_fails [where c = c and p = "fst st'" and t = t] ct(1) by (cases st') simp
  qed
  then show "rx_match quantity_prefix (None, ?s) = []"
    by (simp only: quantity_prefix_match concat_map_nil)
qed

lemma seq_first:
  assumes "rx_match r1 st = st1 # ys" and "rx_match r2 st1 = st2 # zs"
  shows "\<exists>ws. rx_match (Seq r1 r2) st = st2 # ws"
  using assms by simp

lemma tail_at_space:
  assumes "is_space w"
  shows "rx_match (Seq (Opt (Seq (Lit ''.'') (Plus Digit))) X) (p, w # t) = rx_match X (p, w # t)"
proof -
  have "to_lower CHR ''.'' = CHR ''.''" by (simp add: to_lower_code is_upper_code)
  then have "lit_match ''.'' (p, w # t) = None"
    using space_facts [OF assms] by (simp add: to_lower_nonletter)
  then show ?thesis by simp
qed

lemma mixed_number_kept:
  assumes "\<forall>c \<in> set ds. is_digit c" and "ws \<noteq> []" and "\<forall>c \<in> set ws. is_space c" and "is_digit d"
  shows "strip_quantity_prefix (ds @ ws @ d # rest) = ds @ ws @ d # rest"
proof (rule strip_no_match)
  let ?s = "ds @ ws @ d # rest"
  let ?units = "Seq (Plus Space) (Seq unit_words (Plus Space))"
  let ?tail = "Seq (Opt (Seq (Lit ''.'') (Plus Digit))) ?units"
  obtain w ws' where ws: "ws = w # ws'" using assms(2) by (cases ws) auto
  then have w: "is_space w" using assms(3) by simp
  have units: "rx_match ?units (p, ws @ d # rest) = []" for p
  proof -
    have "rx_match (Seq unit_words (Plus Space)) st'' = []"
      if h: "st'' \<in> set (rx_match (Plus Space) (p, ws @ d # rest))" for st''
    proof -
      obtain pre where pre: "ws @ d # rest = pre @ snd st''" "\<forall>c \<in> set pre. in_class Space c"
        using plus_states [OF h] by blast
      then obtain vs where vs: "snd st'' = vs @ d # rest" "set vs \<subseteq> set ws"
        using run_then_other [of pre "snd st''" ws d rest is_space] digit_facts [OF assms(4)] by auto
      then obtain c t where ct: "snd st'' = c # t" "is_space c \<or> is_digit c"
        using assms(3,4) by (cases vs) auto
      then have "\<not> is_upper c" "\<not> is_lower c"
        using digit_facts [of c] space_facts [of c] by auto
      then have "rx_match unit_words (fst st'', c # t) = []"
        by (rule unit_words_need_letter)
      then have "rx_match unit_words st'' = []" using ct(1) by (cases st'') simp
      then show ?thesis by simp
    qed
    then show ?thesis
      by (simp only: rx_match.simps(5) [of "Plus Space"] concat_map_nil)
  qed
  have "rx_match ?tail st' = []" if h: "st' \<in> set (rx_match (Plus Digit) (None, ?s))" for st'
  proof -
    obtain pre where pre: "?s = pre @ snd st'" "\<forall>c \<in> set pre. in_class Digit c"
      using plus_states [OF h] by blast
    then obtain us where us: "snd st' = us @ w # ws' @ d # rest" "set us \<subseteq> set ds"
      using run_then_other [of pre "snd st'" ds w "ws' @ d # rest" is_digit] space_facts [OF w] ws
      by auto
    show ?thesis
    proof (cases us)
      case Nil
      then have "st' = (fst st', w # ws' @ d # rest)" using us(1) by (cases st') simp
      then have "rx_match ?tail st' = rx_match ?units (fst st', ws @ d # rest)"
        using tail_at_space [OF w, of ?units "fst st'" "ws' @ d # rest"] ws by simp
      then show ?thesis using units by simp
    next
      case (Cons c t)
      then have "is_digit c" using us(2) assms(1) by auto
      then have "c \<noteq> CHR ''.''" "\<not> is_space c" "\<not> is_upper c"
        using digit_facts [of c] by auto
      then show ?thesis
        using tail_fails [where c = c and p = "fst st'" and t = "t @ w # ws' @ d # rest"] us(1) Cons
        by (cases st') simp
    qed
  qed
  then show "rx_match quantity_prefix (None, ?s) = []"
    by (simp only: quantity_prefix_match concat_map_nil)
qed

lemma vocabulary_facts:
  "u \<in> set unit_vocabulary \<Longrightarrow> u \<noteq> [] \<and> \<not> is_space (hd u)"
  by (auto simp: unit_vocabulary_def is_space_code)

lemma space_not_s: "is_space c \<Longrightarrow> to_lower c = CHR ''s'' \<longleftrightarrow> False"
  using space_facts [of c] by (auto simp: to_lower_nonletter is_space_code)

lemma to_lower_letters [simp]:
  "is_lower c \<Longrightarrow> to_lower c = c"
  by (simp add: to_lower_def) (cases c, auto simp: is_upper_code is_lower_code)

lemma unit_word_first:
  assumes "u \<in> set unit_vocabulary" and "is_space sp"
  shows "\<exists>ys. rx_match unit_words (p, u @ sp # t) = (Some (last u), sp # t) # ys"
proof -
  have s: "to_lower sp \<noteq> CHR ''s''" using space_not_s [OF assms(2)] by simp
  have l: "\<And>c. to_lower c = (if is_upper c then to_lower c else c)"
    by (simp add: to_lower_nonletter)
  from assms(1) show ?thesis
    unfolding unit_vocabulary_def unit_words_def
    by (auto simp: to_lower_code is_upper_code s)
qed


lemma units_tail:
  assumes "ws \<noteq> []" and "\<forall>c \<in> set ws. is_space c" and "u \<in> set unit_vocabulary"
    and "ws' \<noteq> []" and "\<forall>c \<in> set ws'. is_space c" and "rest = [] \<or> \<not> is_space (hd rest)"
  shows "\<exists>zs. rx_match (Seq (Plus Space) (Seq unit_words (Plus Space))) (p, ws @ u @ ws' @ rest)
               = (Some (last ws'), rest) # zs"
proof -
  have u: "u \<noteq> []" "\<not> is_space (hd u)" using vocabulary_facts [OF assms(3)] by auto
  then have "u @ ws' @ rest = [] \<or> \<not> in_class Space (hd (u @ ws' @ rest))" by simp
  then obtain ys1 where 1:
    "rx_match (Plus Space) (p, ws @ u @ ws' @ rest) = (Some (last ws), u @ ws' @ rest) # ys1"
    using plus_run [of ws Space "u @ ws' @ rest" p] assms(1,2) by auto
  obtain sp ws'' where sp: "ws' = sp # ws''" using assms(4) by (cases ws') auto
  then have "is_space sp" using assms(5) by simp
  then obtain ys2 where 2:
    "rx_match unit_words (Some (last ws), u @ ws' @ rest) = (Some (last u), ws' @ rest) # ys2"
    using unit_word_first [OF assms(3), of sp "Some (last ws)" "ws'' @ rest"] sp by auto
  have "rest = [] \<or> \<not> in_class Space (hd rest)" using assms(6) by simp
  then obtain ys3 where 3:
    "rx_match (Plus Space) (Some (last u), ws' @ rest) = (Some (last ws'), rest) # ys3"
    using plus_run [of ws' Space rest "Some (last u)"] assms(4,5) by auto
  obtain ys4 where 4:
    "rx_match (Seq unit_words (Plus Space)) (Some (last ws), u @ ws' @ rest)
       = (Some (last ws'), rest) # ys4"
    using seq_first [OF 2 3] by blast
  show ?thesis using seq_first [OF 1 4] .
qed

lemma first_of_concat:
  assumes "xs = x # xs'" and "f x = y # ys"
  shows "\<exists>zs. concat (map f xs) = y # zs"
  using assms by simp

lemma integer_prefix_stripped:
  assumes "ds \<noteq> []" and "\<forall>c \<in> set ds. is_digit c"
    and "ws \<noteq> []" and "\<forall>c \<in> set ws. is_space c" and "u \<in> set unit_vocabulary"
    and "ws' \<noteq> []" and "\<forall>c \<in> set ws'. is_space c" and "rest = [] \<or> \<not> is_space (hd rest)"
  shows "strip_quantity_prefix (ds @ ws @ u @ ws' @ rest) = rest"
proof -
  let ?units = "Seq (Plus Space) (Seq unit_words (Plus Space))"
  let ?tail = "Seq (Opt (Seq (Lit ''.'') (Plus Digit))) ?units"
  let ?t = "ws @ u @ ws' @ rest"
  obtain w ws1 where ws: "ws = w # ws1" using assms(3) by (cases ws) auto
  then have w: "is_space w" using assms(4) by simp
  then have "?t = [] \<or> \<not> in_class Digit (hd ?t)" using ws space_facts [OF w] by simp
  then obtain ys1 where 1: "rx_match (Plus Digit) (None, ds @ ?t) = (Some (last ds), ?t) # ys1"
    using plus_run [of ds Digit ?t None] assms(1,2) by auto
  obtain zs where "rx_match ?units (Some (last ds), ?t) = (Some (last ws'), rest) # zs"
    using units_tail [OF assms(3-8)] by blast
  then have 2: "rx_match ?tail (Some (last ds), ?t) = (Some (last ws'), rest) # zs"
    using tail_at_space [OF w, of ?units "Some (last ds)" "ws1 @ u @ ws' @ rest"] ws by simp
  obtain xs where "rx_match quantity_prefix (None, ds @ ?t) = (Some (last ws'), rest) # xs"
    unfolding quantity_prefix_match
    using first_of_concat [where f = "rx_match ?tail", OF 1 2] by blast
  then show ?thesis
    using assms(1,3) by (intro strip_match) auto
qed

lemma decimal_prefix_stripped:
  assumes "ds \<noteq> []" and "\<forall>c \<in> set ds. is_digit c"
    and "fs \<noteq> []" and "\<forall>c \<in> set fs. is_digit c"
    and "ws \<noteq> []" and "\<forall>c \<in> set ws. is_space c" and "u \<in> set unit_vocabulary"
    and "ws' \<noteq> []" and "\<forall>c \<in> set ws'. is_space c" and "rest = [] \<or> \<not> is_space (hd rest)"
  shows "strip_quantity_prefix (ds @ CHR ''.'' # fs @ ws @ u @ ws' @ rest) = rest"
proof -
  let ?units = "Seq (Plus Space) (Seq unit_words (Plus Space))"
  let ?frac = "Opt (Seq (Lit ''.'') (Plus Digit))"
  let ?t = "ws @ u @ ws' @ rest"
  obtain w ws1 where ws: "ws = w # ws1" using assms(5) by (cases ws) auto
  then have w: "is_space w" using assms(6) by simp
  have "\<not> is_digit CHR ''.''" by (simp add: is_digit_code)
  then obtain ys1 where 1:
    "rx_match (Plus Digit) (None, ds @ CHR ''.'' # fs @ ?t) = (Some (last ds), CHR ''.'' # fs @ ?t) # ys1"
    using plus_run [of ds Digit "CHR ''.'' # fs @ ?t" None] assms(1,2) by auto
  have "?t = [] \<or> \<not> in_class Digit (hd ?t)" using ws space_facts [OF w] by simp
  then obtain ys2 where 2:
    "rx_match (Plus Digit) (Some CHR ''.'', fs @ ?t) = (Some (last fs), ?t) # ys2"
    using plus_run [of fs Digit ?t "Some CHR ''.''"] assms(3,4) by auto
  have "rx_match (Lit ''.'') (Some (last ds), CHR ''.'' # fs @ ?t) = [(Some CHR ''.'', fs @ ?t)]"
    by simp
  then obtain ys3 where 3:
    "rx_match ?frac (Some (last ds), CHR ''.'' # fs @ ?t) = (Some (last fs), ?t) # ys3"
    using 2 by simp
  obtain zs where 4: "rx_match ?units (Some (last fs), ?t) = (Some (last ws'), rest) # zs"
    using units_tail [OF assms(5-10)] by blast
  obtain zs' where 5:
    "rx_match (Seq ?frac ?units) (Some (last ds), CHR ''.'' # fs @ ?t) = (Some (last ws'), rest) # zs'"
    using seq_first [OF 3 4] by blast
  obtain xs where
    "rx_match quantity_prefix (None, ds @ CHR ''.'' # fs @ ?t) = (Some (last ws'), rest) # xs"
    unfolding quantity_prefix_match
    using first_of_concat [where f = "rx_match (Seq ?frac ?units)", OF 1 5] by blast
  then show ?thesis
    using assms(1) by (intro strip_match) auto
qed


text \<open>
  C7 (as the code has it). The quantity prefix of the ingredient extractor accepts an integer
  or a decimal number: such a number, white space, a unit word and white space are removed
  from the start of an item, and the name is left. An item that begins with a simple fraction
  or with a mixed number, followed by a unit word, is left as it is, with its whole prefix.
  (The extractor computes no quantity.)
\<close>

theorem quantity_prefix_forms:
  assumes "ds \<noteq> []" and "\<forall>c \<in> set ds. is_digit c"
    and "ns \<noteq> []" and "\<forall>c \<in> set ns. is_digit c"
    and "fs \<noteq> []" and "\<forall>c \<in> set fs. is_digit c"
    and "ws \<noteq> []" and "\<forall>c \<in> set ws. is_space c" and "u \<in> set unit_vocabulary"
    and "ws' \<noteq> []" and "\<forall>c \<in> set ws'. is_space c" and "item = [] \<or> \<not> is_space (hd item)"
  shows "strip_quantity_prefix (ds @ ws @ u @ ws' @ item) = item
       \<and> strip_quantity_prefix (ds @ ''.'' @ fs @ ws @ u @ ws' @ item) = item
       \<and> strip_quantity_prefix (ns @ ''/'' @ fs @ ws @ u @ ws' @ item)
           = ns @ ''/'' @ fs @ ws @ u @ ws' @ item
       \<and> strip_quantity_prefix (ds @ ws @ ns @ ''/'' @ fs @ ws @ u @ ws' @ item)
           = ds @ ws @ ns @ ''/'' @ fs @ ws @ u @ ws' @ item"
proof (intro conjI)
  show "strip_quantity_prefix (ds @ ws @ u @ ws' @ item) = item"
    using assms by (intro integer_prefix_stripped)
  show "strip_quantity_prefix (ds @ ''.'' @ fs @ ws @ u @ ws' @ item) = item"
    using decimal_prefix_stripped [OF assms(1,2,5-12)] by simp
  show "strip_quantity_prefix (ns @ ''/'' @ fs @ ws @ u @ ws' @ item)
          = ns @ ''/'' @ fs @ ws @ u @ ws' @ item"
    using fraction_kept [OF assms(4)] by simp
  obtain n ns' where "ns = n # ns'" using assms(3) by (cases ns) auto
  then show "strip_quantity_prefix (ds @ ws @ ns @ ''/'' @ fs @ ws @ u @ ws' @ item)
          = ds @ ws @ ns @ ''/'' @ fs @ ws @ u @ ws' @ item"
    using mixed_number_kept [OF assms(2,7,8), of n] assms(4) by simp
qed

theorem quantity_prefix_forms_witness:
  "strip_quantity_prefix ''1 cups Jasmine Rice'' = ''Jasmine Rice''
   \<and> strip_quantity_prefix ''1.5 cups Jasmine Rice'' = ''Jasmine Rice''
   \<and> strip_quantity_prefix ''1/5 cups Jasmine Rice'' = ''1/5 cups Jasmine Rice''
   \<and> strip_quantity_prefix ''1 1/5 cups Jasmine Rice'' = ''1 1/5 cups Jasmine Rice''"
proof -
  have d: "\<forall>c \<in> set ''1''. is_digit c" "\<forall>c \<in> set ''5''. is_digit c"
    by (simp_all add: is_digit_code)
  have w: "\<forall>c \<in> set '' ''. is_space c" by (simp add: is_space_code)
  have u: "''cups'' \<in> set unit_vocabulary" by (simp add: unit_vocabulary_def)
  have i: "''Jasmine Rice'' = [] \<or> \<not> is_space (hd ''Jasmine Rice'')" by (simp add: is_space_code)
  show ?thesis
    using quantity_prefix_forms [of "''1''" "''1''" "''5''" "'' ''" "''cups''" "'' ''" "''Jasmine Rice''"]
      d w u i by simp
qed

lemma parse_fraction_item:
  "parse_ingredients ''cart (serves 4): 1 1/2 cups quinoa, garlic'' = [''1 1/2 cups quinoa'', ''Garlic'']"
  by code_simp

lemma strip_fraction_item: "strip_quantity_prefix ''1 1/2 cups quinoa'' = ''1 1/2 cups quinoa''"
  by code_simp

text \<open>
  C7 (as stated) fails: the item "1 1/2 cups quinoa" begins with a mixed number and a unit
  word, the prefix removal leaves it unchanged, and the extractor yields the item with its
  prefix.
\<close>

theorem mixed_number_prefix_counterexample:
  "strip_quantity_prefix ''1 1/2 cups quinoa'' \<noteq> ''quinoa''
   \<and> parse_ingredients ''cart (serves 4): 1 1/2 cups quinoa, garlic'' \<noteq> [''quinoa'', ''Garlic'']"
  by (simp add: parse_fraction_item strip_fraction_item)

section \<open>The quantity forms of \_format\_ingredients\<close>

text \<open>
  The integer, decimal, simple-fraction and mixed-number forms of a quantity are read by
  \<open>_format_ingredients\<close> of the recipe generator, and a fraction with denominator 0 gives
  the quantity 1.0.
\<close>

lemma format_ingredients_quantity_forms:
  "ingredient_quantity ''2 cups Roma Tomatoes'' = 2
   \<and> ingredient_quantity ''1.5 cups Jasmine Rice'' = 3 / 2
   \<and> ingredient_quantity ''1/2 cup Cheddar Cheese'' = 1 / 2
   \<and> ingredient_quantity ''1 1/2 cups Jasmine Rice'' = 3 / 2
   \<and> ingredient_quantity ''1/0 cup Cheddar Cheese'' = 1"
  by code_simp

end
